theory Spec2Isabelle
  imports Complex_Main "HOL-Library.Sublist" "HOL-Library.Multiset"
begin

section \<open>JavaScript numbers\<close>

text \<open>
  A JavaScript number is an exact real, one of the two infinities, or NaN. The rounding
  of binary floating point is not modelled (arithmetic on finite numbers is exact), and
  the two zeros are identified: a non-zero number divided by zero gives the infinity of
  the sign of the numerator.
\<close>

datatype jsnum = Num real | PInf | NInf | NaN

fun js_sign :: "jsnum \<Rightarrow> real" where
  "js_sign (Num a) = sgn a"
| "js_sign PInf = 1"
| "js_sign NInf = - 1"
| "js_sign NaN = 0"

fun js_neg :: "jsnum \<Rightarrow> jsnum" where
  "js_neg (Num a) = Num (- a)"
| "js_neg PInf = NInf"
| "js_neg NInf = PInf"
| "js_neg NaN = NaN"

fun js_add :: "jsnum \<Rightarrow> jsnum \<Rightarrow> jsnum" where
  "js_add (Num a) (Num b) = Num (a + b)"
| "js_add NaN _ = NaN"
| "js_add _ NaN = NaN"
| "js_add PInf NInf = NaN"
| "js_add NInf PInf = NaN"
| "js_add PInf _ = PInf"
| "js_add _ PInf = PInf"
| "js_add NInf _ = NInf"
| "js_add _ NInf = NInf"

definition js_sub :: "jsnum \<Rightarrow> jsnum \<Rightarrow> jsnum" where
  "js_sub x y = js_add x (js_neg y)"

fun js_mul :: "jsnum \<Rightarrow> jsnum \<Rightarrow> jsnum" where
  "js_mul (Num a) (Num b) = Num (a * b)"
| "js_mul NaN _ = NaN"
| "js_mul _ NaN = NaN"
| "js_mul x y =
     (if js_sign x * js_sign y = 0 then NaN
      else if 0 < js_sign x * js_sign y then PInf else NInf)"

fun js_div :: "jsnum \<Rightarrow> jsnum \<Rightarrow> jsnum" where
  "js_div NaN _ = NaN"
| "js_div _ NaN = NaN"
| "js_div (Num a) (Num b) =
     (if b \<noteq> 0 then Num (a / b)
      else if a = 0 then NaN else if 0 < a then PInf else NInf)"
| "js_div (Num a) _ = Num 0"
| "js_div x (Num b) =
     (if 0 < js_sign x * (if b < 0 then - 1 else 1) then PInf else NInf)"
| "js_div _ _ = NaN"

fun js_lt :: "jsnum \<Rightarrow> jsnum \<Rightarrow> bool" where
  "js_lt NaN _ = False"
| "js_lt _ NaN = False"
| "js_lt (Num a) (Num b) = (a < b)"
| "js_lt NInf NInf = False"
| "js_lt NInf _ = True"
| "js_lt _ NInf = False"
| "js_lt PInf _ = False"
| "js_lt _ PInf = True"

definition js_gt :: "jsnum \<Rightarrow> jsnum \<Rightarrow> bool" where
  "js_gt x y = js_lt y x"

definition js_le :: "jsnum \<Rightarrow> jsnum \<Rightarrow> bool" where
  "js_le x y = (x \<noteq> NaN \<and> y \<noteq> NaN \<and> \<not> js_lt y x)"

definition js_ge :: "jsnum \<Rightarrow> jsnum \<Rightarrow> bool" where
  "js_ge x y = js_le y x"

text \<open>\<^verbatim>\<open>a === b\<close> on numbers: NaN is not equal to itself.\<close>

definition js_eq :: "jsnum \<Rightarrow> jsnum \<Rightarrow> bool" where
  "js_eq x y = (x \<noteq> NaN \<and> x = y)"

text \<open>\<^verbatim>\<open>Math.max(a, b)\<close> and \<^verbatim>\<open>Math.min(a, b)\<close>: NaN when an argument is NaN.\<close>

definition Math_max :: "jsnum \<Rightarrow> jsnum \<Rightarrow> jsnum" where
  "Math_max x y = (if x = NaN \<or> y = NaN then NaN else if js_lt x y then y else x)"

definition Math_min :: "jsnum \<Rightarrow> jsnum \<Rightarrow> jsnum" where
  "Math_min x y = (if x = NaN \<or> y = NaN then NaN else if js_lt y x then y else x)"

text \<open>\<^verbatim>\<open>Math.round\<close> rounds to the nearest integer, a half upwards.\<close>

fun Math_round :: "jsnum \<Rightarrow> jsnum" where
  "Math_round (Num a) = Num (of_int \<lfloor>a + 1 / 2\<rfloor>)"
| "Math_round x = x"

fun Math_abs :: "jsnum \<Rightarrow> jsnum" where
  "Math_abs (Num a) = Num \<bar>a\<bar>"
| "Math_abs NaN = NaN"
| "Math_abs _ = PInf"

text \<open>
  Truthiness of a number: zero and NaN are falsy. An optional number
  (\<^verbatim>\<open>number | undefined | null\<close>) is \<open>None\<close> when it is undefined or null, which are
  falsy as well.
\<close>

fun truthy :: "jsnum \<Rightarrow> bool" where
  "truthy (Num a) = (a \<noteq> 0)"
| "truthy NaN = False"
| "truthy _ = True"

text \<open>The expression \<^verbatim>\<open>Math.round(x * 100) / 100\<close>.\<close>

definition round2 :: "jsnum \<Rightarrow> jsnum" where
  "round2 x = js_div (Math_round (js_mul x (Num 100))) (Num 100)"

section \<open>Strings\<close>

text \<open>
  Strings are lists of 8-bit characters; case mapping is that of ASCII letters and
  leaves every other character unchanged.
\<close>

definition toUpperChar :: "char \<Rightarrow> char" where
  "toUpperChar c =
     (case map_of (zip ''abcdefghijklmnopqrstuvwxyz'' ''ABCDEFGHIJKLMNOPQRSTUVWXYZ'') c of
        Some u \<Rightarrow> u | None \<Rightarrow> c)"

definition toLowerChar :: "char \<Rightarrow> char" where
  "toLowerChar c =
     (case map_of (zip ''ABCDEFGHIJKLMNOPQRSTUVWXYZ'' ''abcdefghijklmnopqrstuvwxyz'') c of
        Some l \<Rightarrow> l | None \<Rightarrow> c)"

definition toUpperCase :: "string \<Rightarrow> string" where
  "toUpperCase s = map toUpperChar s"

definition toLowerCase :: "string \<Rightarrow> string" where
  "toLowerCase s = map toLowerChar s"

text \<open>\<^verbatim>\<open>s.includes(t)\<close>: \<open>t\<close> occurs in \<open>s\<close> as a contiguous substring.\<close>

fun str_includes :: "string \<Rightarrow> string \<Rightarrow> bool" where
  "str_includes [] t = (t = [])"
| "str_includes (c # cs) t = (prefix t (c # cs) \<or> str_includes cs t)"

section \<open>Listings and preferences (types/ebay.ts)\<close>

text \<open>
  The decimal string \<^verbatim>\<open>value\<close> of a price or shipping cost is only ever read through
  \<^verbatim>\<open>parseFloat\<close>; the field \<open>parsedValue\<close> holds the number \<^verbatim>\<open>parseFloat\<close> returns
  for it (NaN when the string does not start with a number).
\<close>

record Money =
  parsedValue :: jsnum
  currency :: string

record Seller =
  username :: string
  feedbackPercentage :: jsnum
  feedbackScore :: jsnum

record ShippingOption =
  shippingCost :: Money
  shippingType :: string

record EbayItem =
  itemId :: string
  title :: string
  price :: Money
  imageUrl :: "string option"
  itemWebUrl :: string
  condition :: string
  seller :: Seller
  shippingOptions :: "ShippingOption list option"
  country :: "string option"
  shortDescription :: "string option"

record UserPreferences =
  maxPrice :: "jsnum option"
  preferredCondition :: "string list option"
  minimumSellerRating :: "jsnum option"
  freeShippingOnly :: "bool option"
  preferredCountries :: "string list option"
  prefKeywords :: "string list option"

record RankingFactors =
  priceScore :: jsnum
  conditionScore :: jsnum
  sellerScore :: jsnum
  shippingScore :: jsnum
  keywordScore :: jsnum

text \<open>A \<^verbatim>\<open>RankedItem\<close> is the listing (\<^verbatim>\<open>...item\<close>) with two more fields.\<close>

record RankedItem =
  listing :: EbayItem
  relevanceScore :: jsnum
  rankingFactors :: RankingFactors

section \<open>Array.prototype.sort\<close>

text \<open>
  \<^verbatim>\<open>xs.sort(cmp)\<close> orders the list by calls of \<open>SortCompare\<close>: the number the comparator
  returns, NaN counting as \<open>+0\<close>. \<open>a <CF b\<close>, \<open>a =CF b\<close> and \<open>a >CF b\<close> say that this
  number is negative, zero, positive.
\<close>

definition SortCompare :: "('a \<Rightarrow> 'a \<Rightarrow> jsnum) \<Rightarrow> 'a \<Rightarrow> 'a \<Rightarrow> jsnum" where
  "SortCompare cmp a b = (let v = cmp a b in if v = NaN then Num 0 else v)"

definition cf_lt :: "('a \<Rightarrow> 'a \<Rightarrow> jsnum) \<Rightarrow> 'a \<Rightarrow> 'a \<Rightarrow> bool" where
  "cf_lt cmp a b = js_lt (SortCompare cmp a b) (Num 0)"

definition cf_gt :: "('a \<Rightarrow> 'a \<Rightarrow> jsnum) \<Rightarrow> 'a \<Rightarrow> 'a \<Rightarrow> bool" where
  "cf_gt cmp a b = js_gt (SortCompare cmp a b) (Num 0)"

definition cf_eq :: "('a \<Rightarrow> 'a \<Rightarrow> jsnum) \<Rightarrow> 'a \<Rightarrow> 'a \<Rightarrow> bool" where
  "cf_eq cmp a b = (\<not> cf_lt cmp a b \<and> \<not> cf_gt cmp a b)"

text \<open>
  The comparisons are consistent on a list when, for all its elements, \<open>=CF\<close> is reflexive,
  symmetric and transitive and \<open><CF\<close> and \<open>>CF\<close> are transitive. For such a list the
  language fixes the result: it is the stable sort by these comparisons.
\<close>

definition consistent :: "('a \<Rightarrow> 'a \<Rightarrow> jsnum) \<Rightarrow> 'a list \<Rightarrow> bool" where
  "consistent cmp xs =
     list_all (\<lambda>a. cf_eq cmp a a \<and>
       list_all (\<lambda>b. (if cf_eq cmp a b then cf_eq cmp b a else True) \<and>
         list_all (\<lambda>c.
             (if cf_eq cmp a b \<and> cf_eq cmp b c then cf_eq cmp a c else True) \<and>
             (if cf_lt cmp a b \<and> cf_lt cmp b c then cf_lt cmp a c else True) \<and>
             (if cf_gt cmp a b \<and> cf_gt cmp b c then cf_gt cmp a c else True)) xs) xs) xs"

text \<open>
  The stable sort, as an insertion sort: \<open>a\<close> is placed after \<open>b\<close> only when
  \<^verbatim>\<open>cmp(a, b) > 0\<close>, which a comparator result of NaN is not.
\<close>

fun js_insert :: "('a \<Rightarrow> 'a \<Rightarrow> jsnum) \<Rightarrow> 'a \<Rightarrow> 'a list \<Rightarrow> 'a list" where
  "js_insert cmp x [] = [x]"
| "js_insert cmp x (y # ys) =
     (if js_gt (cmp x y) (Num 0) then y # js_insert cmp x ys else x # y # ys)"

fun js_sort :: "('a \<Rightarrow> 'a \<Rightarrow> jsnum) \<Rightarrow> 'a list \<Rightarrow> 'a list" where
  "js_sort cmp [] = []"
| "js_sort cmp (x # xs) = js_insert cmp x (js_sort cmp xs)"

text \<open>
  Where the comparisons are not consistent (under the comparator
  \<^verbatim>\<open>(a, b) => b.key - a.key\<close> a NaN key compares equal to two keys that differ) the order
  is implementation-defined: it is left to the JavaScript engine that runs the code. An
  engine sees the elements only through \<open>SortCompare\<close>: it is given the table of
  \<open>SortCompare(xs[i], xs[j])\<close> and answers with the old positions in their new order.
\<close>

type_synonym SortEngine = "jsnum list list \<Rightarrow> nat list"

text \<open>
  The list in the order of the answer. The answer of an engine is a permutation of the
  positions; any other list of numbers is read as one (a position out of range or named
  again is skipped, the positions not named follow in their old order).
\<close>

definition arrange :: "nat list \<Rightarrow> 'a list \<Rightarrow> 'a list" where
  "arrange order xs =
     (let named = remdups (filter (\<lambda>i. i < length xs) order);
          others = filter (\<lambda>i. i \<notin> set named) [0..<length xs]
      in map (\<lambda>i. xs ! i) (named @ others))"

definition Array_sort :: "SortEngine \<Rightarrow> ('a \<Rightarrow> 'a \<Rightarrow> jsnum) \<Rightarrow> 'a list \<Rightarrow> 'a list" where
  "Array_sort engine cmp xs =
     (if consistent cmp xs then js_sort cmp xs
      else arrange (engine (map (\<lambda>a. map (\<lambda>b. SortCompare cmp a b) xs) xs)) xs)"

subsection \<open>The sort of V8 on fewer than 64 elements\<close>

text \<open>
  Node.js runs on V8, whose \<^verbatim>\<open>Array.prototype.sort\<close> (\<^verbatim>\<open>third_party/v8/builtins/array-sort.tq\<close>)
  sorts fewer than 64 elements as one run: \<^verbatim>\<open>CountAndMakeRun\<close> takes the longest prefix
  that is non-descending or strictly descending and reverses a descending one, and
  \<^verbatim>\<open>BinaryInsertionSort\<close> inserts the other elements one after another at the place a
  binary search finds. \<open>countRun\<close> counts the elements of the run after its first two.
\<close>

fun countRun :: "('a \<Rightarrow> 'a \<Rightarrow> jsnum) \<Rightarrow> bool \<Rightarrow> 'a \<Rightarrow> 'a list \<Rightarrow> nat" where
  "countRun cmp isDescending previous [] = 0"
| "countRun cmp isDescending previous (current # rest) =
     (let order = SortCompare cmp current previous in
      if isDescending = js_lt order (Num 0)
      then Suc (countRun cmp isDescending current rest)
      else 0)"

function binarySearch :: "('a \<Rightarrow> 'a \<Rightarrow> jsnum) \<Rightarrow> 'a \<Rightarrow> 'a list \<Rightarrow> nat \<Rightarrow> nat \<Rightarrow> nat" where
  "binarySearch cmp pivot workArray left right =
     (if left < right then
        let mid = left + (right - left) div 2;
            order = SortCompare cmp pivot (workArray ! mid)
        in if js_lt order (Num 0)
           then binarySearch cmp pivot workArray left mid
           else binarySearch cmp pivot workArray (mid + 1) right
      else left)"
  by pat_completeness auto

termination
  by (relation "measure (\<lambda>(cmp, pivot, workArray, left, right). right - left)") auto

declare binarySearch.simps [simp del]

definition binaryInsert :: "('a \<Rightarrow> 'a \<Rightarrow> jsnum) \<Rightarrow> 'a list \<Rightarrow> 'a \<Rightarrow> 'a list" where
  "binaryInsert cmp workArray pivot =
     (let left = binarySearch cmp pivot workArray 0 (length workArray)
      in take left workArray @ pivot # drop left workArray)"

definition v8_sort :: "('a \<Rightarrow> 'a \<Rightarrow> jsnum) \<Rightarrow> 'a list \<Rightarrow> 'a list" where
  "v8_sort cmp xs =
     (case xs of
        first # second # rest \<Rightarrow>
          let isDescending = js_lt (SortCompare cmp second first) (Num 0);
              runLength = 2 + countRun cmp isDescending second rest;
              run = take runLength xs
          in foldl (binaryInsert cmp) (if isDescending then rev run else run)
               (drop runLength xs)
      | _ \<Rightarrow> xs)"

definition v8_engine :: SortEngine where
  "v8_engine table = v8_sort (\<lambda>i j. table ! i ! j) [0..<length table]"

section \<open>The preference scorer (EbayRankingEngine)\<close>

text \<open>
  \<^verbatim>\<open>EnhancedEbayRankingEngine\<close> carries private copies of the five sub-score functions
  with the same bodies, and \<^verbatim>\<open>getTraditionalRanking\<close> repeats the body of
  \<^verbatim>\<open>calculateRelevanceScore\<close>; they are modelled once.
\<close>

definition calculatePriceScore :: "EbayItem \<Rightarrow> jsnum option \<Rightarrow> jsnum" where
  "calculatePriceScore item maxPrice' =
     (case maxPrice' of
        None \<Rightarrow> Num 50
      | Some m \<Rightarrow>
          if \<not> truthy m then Num 50
          else let itemPrice = parsedValue (price item) in
            if js_gt itemPrice m then Num 0
            else let priceRatio = js_div itemPrice m in
              Math_max (Num 0) (js_sub (Num 100) (js_mul priceRatio (Num 50))))"

definition calculateConditionScore :: "EbayItem \<Rightarrow> string list option \<Rightarrow> jsnum" where
  "calculateConditionScore item preferredConditions =
     (case preferredConditions of
        None \<Rightarrow> Num 50
      | Some cs \<Rightarrow>
          if length cs = 0 then Num 50
          else let itemCondition = toUpperCase (condition item) in
            if itemCondition \<in> set (map toUpperCase cs) then Num 100
            else if str_includes itemCondition ''NEW''
                    \<and> list_ex (\<lambda>c. str_includes (toUpperCase c) ''NEW'') cs then Num 80
            else if str_includes itemCondition ''USED''
                    \<and> list_ex (\<lambda>c. str_includes (toUpperCase c) ''USED'') cs then Num 60
            else Num 20)"

definition calculateSellerScore :: "EbayItem \<Rightarrow> jsnum option \<Rightarrow> jsnum" where
  "calculateSellerScore item minimumRating =
     (case minimumRating of
        None \<Rightarrow> Num 50
      | Some m \<Rightarrow>
          if \<not> truthy m then Num 50
          else let sellerRating = feedbackPercentage (seller item) in
            if js_lt sellerRating m then Num 0
            else let ratingBonus = Math_min (js_mul (js_sub sellerRating m) (Num 2)) (Num 50) in
              Math_min (Num 100) (js_add (Num 50) ratingBonus))"

definition calculateShippingScore :: "EbayItem \<Rightarrow> bool option \<Rightarrow> jsnum" where
  "calculateShippingScore item freeShippingOnly' =
     (if freeShippingOnly' \<noteq> Some True then Num 50
      else let hasFreeShipping =
             (case shippingOptions item of
                None \<Rightarrow> False
              | Some opts \<Rightarrow>
                  list_ex (\<lambda>option. js_eq (parsedValue (shippingCost option)) (Num 0)) opts)
           in if hasFreeShipping then Num 100 else Num 0)"

text \<open>\<^verbatim>\<open>item.shortDescription || ''\<close>: an absent and an empty description both give \<open>''''\<close>.\<close>

definition descriptionOrEmpty :: "EbayItem \<Rightarrow> string" where
  "descriptionOrEmpty item = (case shortDescription item of None \<Rightarrow> [] | Some d \<Rightarrow> d)"

definition calculateKeywordScore :: "EbayItem \<Rightarrow> string list option \<Rightarrow> jsnum" where
  "calculateKeywordScore item keywords' =
     (case keywords' of
        None \<Rightarrow> Num 50
      | Some ks \<Rightarrow>
          if length ks = 0 then Num 50
          else let itemText = toLowerCase (title item @ '' '' @ descriptionOrEmpty item);
                   matchCount = length (filter (\<lambda>keyword. str_includes itemText (toLowerCase keyword)) ks)
               in Math_min (Num 100)
                    (js_mul (js_div (Num (real matchCount)) (Num (real (length ks)))) (Num 100)))"

definition calculateRelevanceScore :: "EbayItem \<Rightarrow> UserPreferences \<Rightarrow> RankedItem" where
  "calculateRelevanceScore item preferences =
     (let priceScore' = calculatePriceScore item (maxPrice preferences);
          conditionScore' = calculateConditionScore item (preferredCondition preferences);
          sellerScore' = calculateSellerScore item (minimumSellerRating preferences);
          shippingScore' = calculateShippingScore item (freeShippingOnly preferences);
          keywordScore' = calculateKeywordScore item (prefKeywords preferences);
          relevanceScore' =
            js_add (js_add (js_add (js_add
              (js_mul priceScore' (Num 0.25))
              (js_mul conditionScore' (Num 0.15)))
              (js_mul sellerScore' (Num 0.20)))
              (js_mul shippingScore' (Num 0.15)))
              (js_mul keywordScore' (Num 0.25))
      in \<lparr> listing = item,
           relevanceScore = round2 relevanceScore',
           rankingFactors = \<lparr> priceScore = priceScore', conditionScore = conditionScore',
             sellerScore = sellerScore', shippingScore = shippingScore',
             keywordScore = keywordScore' \<rparr> \<rparr>)"

text \<open>
  The filter of \<^verbatim>\<open>rankItems\<close> leaves no NaN score, so the comparisons of its sort are
  consistent and the order is that of the stable sort on every engine.
\<close>

definition rankItems :: "EbayItem list \<Rightarrow> UserPreferences \<Rightarrow> RankedItem list" where
  "rankItems items preferences =
     js_sort (\<lambda>a b. js_sub (relevanceScore b) (relevanceScore a))
       (filter (\<lambda>item. js_gt (relevanceScore item) (Num 0))
          (map (\<lambda>item. calculateRelevanceScore item preferences) items))"

section \<open>The deal quality model (ml-deal-scoring.ts)\<close>

record DealFeatures =
  priceVsAverage :: jsnum
  sellerRating :: jsnum
  shippingCostRatio :: jsnum
  conditionScore :: jsnum
  titleQualityScore :: jsnum
  listingAgeScore :: jsnum
  bidCountScore :: jsnum

record DealFactors =
  priceScore :: jsnum
  sellerScore :: jsnum
  shippingScore :: jsnum
  conditionScore :: jsnum
  titleScore :: jsnum
  freshnessScore :: jsnum

datatype Recommendation = Excellent | Good | Fair | Poor

record DealScore =
  overallScore :: jsnum
  confidence :: jsnum
  factors :: DealFactors
  recommendation :: Recommendation

text \<open>
  The types of TypeScript are erased at run time: a listing is the unchecked JSON of the
  eBay response, and \<^verbatim>\<open>scoreDeal\<close> guards its whole body with try/catch. The run-time
  view of a listing tells, for each object the body dereferences, whether it is there
  (\<open>None\<close>: undefined); reading a property of undefined raises a TypeError.
  \<open>rt_price\<close> is \<^verbatim>\<open>parseFloat(item.price.value)\<close>, \<open>rt_seller\<close> is
  \<^verbatim>\<open>item.seller.feedbackPercentage\<close>, and an element of \<open>rt_shippingOptions\<close> is
  \<^verbatim>\<open>parseFloat(option.shippingCost.value)\<close>.
\<close>

datatype fault = TypeError | Error string

record RuntimeListing =
  rt_price :: "jsnum option"
  rt_seller :: "jsnum option"
  rt_shippingOptions :: "jsnum option list option"
  rt_condition :: "string option"
  rt_title :: "string option"

text \<open>A listing that conforms to the interface \<^verbatim>\<open>EbayItem\<close>, as the run-time object.\<close>

definition runtime :: "EbayItem \<Rightarrow> RuntimeListing" where
  "runtime item =
     \<lparr> rt_price = Some (parsedValue (price item)),
       rt_seller = Some (feedbackPercentage (seller item)),
       rt_shippingOptions =
         map_option (map (\<lambda>option. Some (parsedValue (shippingCost option)))) (shippingOptions item),
       rt_condition = Some (condition item),
       rt_title = Some (title item) \<rparr>"

definition prop_of :: "'a option \<Rightarrow> fault + 'a" where
  "prop_of obj = (case obj of None \<Rightarrow> Inl TypeError | Some v \<Rightarrow> Inr v)"

definition bind_fault :: "fault + 'a \<Rightarrow> ('a \<Rightarrow> fault + 'b) \<Rightarrow> fault + 'b" where
  "bind_fault m f = (case m of Inl e \<Rightarrow> Inl e | Inr v \<Rightarrow> f v)"

fun Math_exp :: "jsnum \<Rightarrow> jsnum" where
  "Math_exp (Num a) = Num (exp a)"
| "Math_exp PInf = PInf"
| "Math_exp NInf = Num 0"
| "Math_exp NaN = NaN"

fun Math_tanh :: "jsnum \<Rightarrow> jsnum" where
  "Math_tanh (Num a) = Num (tanh a)"
| "Math_tanh PInf = Num 1"
| "Math_tanh NInf = Num (- 1)"
| "Math_tanh NaN = NaN"

record DealWeights =
  w_priceVsAverage :: real
  w_sellerRating :: real
  w_shippingCostRatio :: real
  w_conditionScore :: real
  w_titleQualityScore :: real
  w_listingAgeScore :: real
  w_bidCountScore :: real
  w_bias :: real

definition dealWeights :: DealWeights where
  "dealWeights =
     \<lparr> w_priceVsAverage = - 0.35, w_sellerRating = 0.25, w_shippingCostRatio = - 0.15,
       w_conditionScore = 0.20, w_titleQualityScore = 0.10, w_listingAgeScore = 0.05,
       w_bidCountScore = 0.05, w_bias = 0.15 \<rparr>"

type_synonym MarketAverages = "string \<Rightarrow> jsnum option"

definition initializeMarketAverages :: MarketAverages where
  "initializeMarketAverages =
     map_of [(''electronics'', Num 250), (''clothing'', Num 45), (''books'', Num 15),
             (''home'', Num 85), (''automotive'', Num 150), (''general'', Num 75)]"

definition updateMarketAverages :: "MarketAverages \<Rightarrow> MarketAverages \<Rightarrow> MarketAverages" where
  "updateMarketAverages marketAverages categoryAverages = marketAverages ++ categoryAverages"

definition getMarketAverage :: "MarketAverages \<Rightarrow> string \<Rightarrow> jsnum \<Rightarrow> jsnum" where
  "getMarketAverage marketAverages category currentPrice =
     (case marketAverages category of
        None \<Rightarrow> js_mul currentPrice (Num 1.2)
      | Some average \<Rightarrow>
          if truthy average then average else js_mul currentPrice (Num 1.2))"

definition normalizePriceRatio :: "jsnum \<Rightarrow> jsnum \<Rightarrow> jsnum" where
  "normalizePriceRatio price' marketAverage =
     (let ratio = js_div price' marketAverage
      in Math_tanh (js_mul (js_sub ratio (Num 1)) (Num 2)))"

definition calculateShippingRatio :: "RuntimeListing \<Rightarrow> jsnum \<Rightarrow> fault + jsnum" where
  "calculateShippingRatio item itemPrice =
     (case rt_shippingOptions item of
        None \<Rightarrow> Inr (Num 0.5)
      | Some [] \<Rightarrow> Inr (Num 0.5)
      | Some (first # _) \<Rightarrow>
          bind_fault (prop_of first) (\<lambda>shippingCost'.
            if js_eq shippingCost' (Num 0) then Inr (Num 0)
            else let ratio = js_div shippingCost' itemPrice
                 in Inr (Math_min (Num 1) ratio)))"

text \<open>Whitespace (\<^verbatim>\<open>\s\<close>) among the 8-bit characters: tab, LF, VT, FF, CR, space, NBSP.\<close>

definition isSpace :: "char \<Rightarrow> bool" where
  "isSpace c = (of_char c \<in> {9, 10, 11, 12, 13, 32, 160 :: nat})"

text \<open>\<^verbatim>\<open>s.replace(/\s+/g, r)\<close>: every maximal run of whitespace becomes \<open>r\<close>.\<close>

function replaceSpaceRuns :: "string \<Rightarrow> string \<Rightarrow> string" where
  "replaceSpaceRuns r [] = []"
| "replaceSpaceRuns r (c # cs) =
     (if isSpace c then r @ replaceSpaceRuns r (dropWhile isSpace cs)
      else c # replaceSpaceRuns r cs)"
  by pat_completeness auto
termination
  by (relation "measure (\<lambda>(r, s). length s)")
     (auto simp: length_dropWhile_le less_Suc_eq_le)

text \<open>
  \<^verbatim>\<open>conditionMap[normalizedCondition] || 0.5\<close>: no entry of the table is falsy, and an
  upper-cased key names no inherited property of an object literal.
\<close>

definition conditionMap :: "string \<Rightarrow> real option" where
  "conditionMap =
     map_of [(''NEW'', 1.0), (''LIKE_NEW'', 0.9), (''EXCELLENT'', 0.85), (''VERY_GOOD'', 0.75),
             (''GOOD'', 0.6), (''ACCEPTABLE'', 0.4), (''USED'', 0.5), (''REFURBISHED'', 0.7),
             (''FOR_PARTS_OR_NOT_WORKING'', 0.2)]"

definition deal_calculateConditionScore :: "string \<Rightarrow> jsnum" where
  "deal_calculateConditionScore condition' =
     (let normalizedCondition = replaceSpaceRuns ''_'' (toUpperCase condition')
      in case conditionMap normalizedCondition of None \<Rightarrow> Num 0.5 | Some q \<Rightarrow> Num q)"

subsection \<open>The regular expressions of calculateTitleQuality\<close>

definition isUpperAZ :: "char \<Rightarrow> bool" where
  "isUpperAZ c = (c \<in> set ''ABCDEFGHIJKLMNOPQRSTUVWXYZ'')"

definition isLowerAZ :: "char \<Rightarrow> bool" where
  "isLowerAZ c = (c \<in> set ''abcdefghijklmnopqrstuvwxyz'')"

definition isDigit :: "char \<Rightarrow> bool" where
  "isDigit c = (c \<in> set ''0123456789'')"

text \<open>\<^verbatim>\<open>\w\<close> is \<^verbatim>\<open>[A-Za-z0-9_]\<close>.\<close>

definition isWordChar :: "char \<Rightarrow> bool" where
  "isWordChar c = (isUpperAZ c \<or> isLowerAZ c \<or> isDigit c \<or> c = CHR ''_'')"

text \<open>
  \<^verbatim>\<open>\b\<close> in front of a word character: the previous character (\<open>None\<close> at the start
  of the string) is not a word character.
\<close>

definition boundaryBefore :: "char option \<Rightarrow> bool" where
  "boundaryBefore prev = (case prev of None \<Rightarrow> True | Some p \<Rightarrow> \<not> isWordChar p)"

text \<open>
  \<^verbatim>\<open>\b\<close> behind the last matched character \<open>l\<close>, \<open>rest\<close> being what follows: one of
  the two neighbours is a word character and the other is not (the end of the string is not).
\<close>

definition boundaryAfter :: "char \<Rightarrow> string \<Rightarrow> bool" where
  "boundaryAfter l rest =
     (isWordChar l \<noteq> (case rest of [] \<Rightarrow> False | d # _ \<Rightarrow> isWordChar d))"

text \<open>
  \<^verbatim>\<open>/\b[A-Z][a-z]+ [A-Z0-9]+/\<close> matches at the head of \<open>c # cs\<close>. The greedy
  \<^verbatim>\<open>[a-z]+\<close> takes every lower-case letter: a shorter run is followed by a letter, not
  by the space.
\<close>

definition brandModelAt :: "char option \<Rightarrow> char \<Rightarrow> string \<Rightarrow> bool" where
  "brandModelAt prev c cs =
     (boundaryBefore prev \<and> isUpperAZ c \<and> takeWhile isLowerAZ cs \<noteq> [] \<and>
      (case dropWhile isLowerAZ cs of
         s # d # _ \<Rightarrow> s = CHR '' '' \<and> (isUpperAZ d \<or> isDigit d)
       | _ \<Rightarrow> False))"

fun brandModelFrom :: "char option \<Rightarrow> string \<Rightarrow> bool" where
  "brandModelFrom prev [] = False"
| "brandModelFrom prev (c # cs) = (brandModelAt prev c cs \<or> brandModelFrom (Some c) cs)"

text \<open>\<^verbatim>\<open>/\b(w1|w2|...)\b/i\<close> on a lower-cased string, for lower-case words \<open>ws\<close>.\<close>

definition wholeWordAt :: "string list \<Rightarrow> char option \<Rightarrow> string \<Rightarrow> bool" where
  "wholeWordAt ws prev s =
     (boundaryBefore prev \<and>
      list_ex (\<lambda>w. w \<noteq> [] \<and> prefix w s \<and> boundaryAfter (last w) (drop (length w) s)) ws)"

fun wholeWordFrom :: "string list \<Rightarrow> char option \<Rightarrow> string \<Rightarrow> bool" where
  "wholeWordFrom ws prev [] = False"
| "wholeWordFrom ws prev (c # cs) =
     (wholeWordAt ws prev (c # cs) \<or> wholeWordFrom ws (Some c) cs)"

text \<open>
  \<^verbatim>\<open>/\b\d+(\.\d+)?(gb|tb|inch|"|'|mm|cm|oz|lb)\b/i\<close> on a lower-cased string. The
  digit runs are taken whole and the fraction is taken when it is there: no unit starts
  with a digit or a dot.
\<close>

definition sizeUnits :: "string list" where
  "sizeUnits = [''gb'', ''tb'', ''inch'', [CHR 0x22], [CHR 0x27], ''mm'', ''cm'', ''oz'', ''lb'']"

definition afterFraction :: "string \<Rightarrow> string" where
  "afterFraction s =
     (case s of
        d # f # fs \<Rightarrow> if d = CHR ''.'' \<and> isDigit f then dropWhile isDigit fs else s
      | _ \<Rightarrow> s)"

definition sizeSpecAt :: "char option \<Rightarrow> char \<Rightarrow> string \<Rightarrow> bool" where
  "sizeSpecAt prev c cs =
     (boundaryBefore prev \<and> isDigit c \<and>
      (let rest = afterFraction (dropWhile isDigit cs)
       in list_ex (\<lambda>u. prefix u rest \<and> boundaryAfter (last u) (drop (length u) rest)) sizeUnits))"

fun sizeSpecFrom :: "char option \<Rightarrow> string \<Rightarrow> bool" where
  "sizeSpecFrom prev [] = False"
| "sizeSpecFrom prev (c # cs) = (sizeSpecAt prev c cs \<or> sizeSpecFrom (Some c) cs)"

definition calculateTitleQuality :: "string \<Rightarrow> jsnum" where
  "calculateTitleQuality title' =
     (let lower = toLowerCase title';
          score0 = (0.5 :: real);
          score1 = (if 30 < length title' \<and> length title' < 120 then score0 + 0.2 else score0);
          score2 = (if length title' < 20 then score1 - 0.2 else score1);
          score3 = (if brandModelFrom None title' then score2 + 0.15 else score2);
          score4 = (if wholeWordFrom [''new'', ''used'', ''refurbished'', ''excellent'', ''good'']
                         None lower then score3 + 0.1 else score3);
          score5 = (if sizeSpecFrom None lower then score4 + 0.1 else score4);
          score6 = (if list_ex (str_includes lower)
                         [''!!!'', ''wow'', ''amazing'', ''incredible'', ''must see'']
                    then score5 - 0.15 else score5);
          score7 = (if str_includes title' ''???'' then score6 - 0.1 else score6)
      in Math_max (Num 0) (Math_min (Num 1) (Num score7)))"

subsection \<open>Feature extraction and scoring\<close>

definition extractFeatures ::
  "MarketAverages \<Rightarrow> RuntimeListing \<Rightarrow> string option \<Rightarrow> fault + DealFeatures" where
  "extractFeatures marketAverages item marketCategory =
     bind_fault (prop_of (rt_price item)) (\<lambda>price'.
       let category = (case marketCategory of None \<Rightarrow> ''general''
                       | Some c \<Rightarrow> if c = [] then ''general'' else c);
           marketAverage = getMarketAverage marketAverages category price'
       in bind_fault (prop_of (rt_seller item)) (\<lambda>feedbackPercentage'.
          bind_fault (calculateShippingRatio item price') (\<lambda>shippingRatio.
          bind_fault (prop_of (rt_condition item)) (\<lambda>condition'.
          bind_fault (prop_of (rt_title item)) (\<lambda>title'.
            Inr \<lparr> priceVsAverage = normalizePriceRatio price' marketAverage,
                  sellerRating = js_div feedbackPercentage' (Num 100),
                  shippingCostRatio = shippingRatio,
                  DealFeatures.conditionScore = deal_calculateConditionScore condition',
                  titleQualityScore = calculateTitleQuality title',
                  listingAgeScore = Num 0.8,
                  bidCountScore = Num 0.6 \<rparr>)))))"

definition calculateDealScore :: "DealFeatures \<Rightarrow> jsnum" where
  "calculateDealScore features =
     (let score =
        js_add (js_add (js_add (js_add (js_add (js_add (js_add
          (js_mul (priceVsAverage features) (Num (w_priceVsAverage dealWeights)))
          (js_mul (sellerRating features) (Num (w_sellerRating dealWeights))))
          (js_mul (shippingCostRatio features) (Num (w_shippingCostRatio dealWeights))))
          (js_mul (DealFeatures.conditionScore features) (Num (w_conditionScore dealWeights))))
          (js_mul (titleQualityScore features) (Num (w_titleQualityScore dealWeights))))
          (js_mul (listingAgeScore features) (Num (w_listingAgeScore dealWeights))))
          (js_mul (bidCountScore features) (Num (w_bidCountScore dealWeights))))
          (Num (w_bias dealWeights))
      in js_div (Num 1) (js_add (Num 1) (Math_exp (js_neg score))))"

definition calculateConfidence :: "DealFeatures \<Rightarrow> jsnum" where
  "calculateConfidence features =
     (let confidence0 = (0.5 :: real);
          confidence1 = (if js_gt (sellerRating features) (Num 0.95)
                         then confidence0 + 0.2 else confidence0);
          confidence2 = (if js_gt (Math_abs (priceVsAverage features)) (Num 0.3)
                         then confidence1 + 0.15 else confidence1);
          confidence3 = (if js_gt (titleQualityScore features) (Num 0.8)
                         then confidence2 + 0.1 else confidence2);
          confidence4 = (if js_lt (sellerRating features) (Num 0.9)
                         then confidence3 - 0.15 else confidence3)
      in Math_max (Num 0.1) (Math_min (Num 1.0) (Num confidence4)))"

definition calculateFactorScores :: "DealFeatures \<Rightarrow> DealFactors" where
  "calculateFactorScores features =
     \<lparr> priceScore =
         Math_round (js_mul (js_sub (Num 1) (Math_abs (priceVsAverage features))) (Num 100)),
       sellerScore = Math_round (js_mul (sellerRating features) (Num 100)),
       shippingScore =
         Math_round (js_mul (js_sub (Num 1) (shippingCostRatio features)) (Num 100)),
       conditionScore = Math_round (js_mul (DealFeatures.conditionScore features) (Num 100)),
       titleScore = Math_round (js_mul (titleQualityScore features) (Num 100)),
       freshnessScore = Math_round (js_mul (listingAgeScore features) (Num 100)) \<rparr>"

definition getRecommendation :: "jsnum \<Rightarrow> Recommendation" where
  "getRecommendation score =
     (if js_ge score (Num 80) then Excellent
      else if js_ge score (Num 65) then Good
      else if js_ge score (Num 40) then Fair
      else Poor)"

text \<open>The body of the try block of \<^verbatim>\<open>scoreDeal\<close>.\<close>

definition scoreDeal_try ::
  "MarketAverages \<Rightarrow> RuntimeListing \<Rightarrow> string option \<Rightarrow> fault + DealScore" where
  "scoreDeal_try marketAverages item marketCategory =
     bind_fault (extractFeatures marketAverages item marketCategory) (\<lambda>features.
       let rawScore = calculateDealScore features;
           overallScore' = Math_max (Num 0) (Math_min (Num 100) (js_mul rawScore (Num 100)));
           confidence' = calculateConfidence features;
           factors' = calculateFactorScores features;
           recommendation' = getRecommendation overallScore'
       in Inr \<lparr> overallScore = round2 overallScore',
                 confidence = round2 confidence',
                 factors = factors',
                 recommendation = recommendation' \<rparr>)"

text \<open>The catch handler logs the fault and returns the neutral score.\<close>

definition scoreDeal :: "MarketAverages \<Rightarrow> RuntimeListing \<Rightarrow> string option \<Rightarrow> DealScore" where
  "scoreDeal marketAverages item marketCategory =
     (case scoreDeal_try marketAverages item marketCategory of
        Inr score \<Rightarrow> score
      | Inl error \<Rightarrow>
          \<lparr> overallScore = Num 50,
            confidence = Num 0.1,
            factors = \<lparr> priceScore = Num 50, sellerScore = Num 50, shippingScore = Num 50,
                        conditionScore = Num 50, titleScore = Num 50, freshnessScore = Num 50 \<rparr>,
            recommendation = Fair \<rparr>)"

definition scoreBatchDeals ::
  "MarketAverages \<Rightarrow> RuntimeListing list \<Rightarrow> string option \<Rightarrow> DealScore list" where
  "scoreBatchDeals marketAverages items marketCategory =
     map (\<lambda>item. scoreDeal marketAverages item marketCategory) items"

section \<open>The embedding similarity provider (azure-openai-service.ts)\<close>

text \<open>
  An embedding arrives in the JSON of the remote reply: a list of finite numbers.
\<close>

type_synonym embedding = "real list"

text \<open>
  The remote call \<^verbatim>\<open>client.embeddings.create\<close> is a parameter. It may answer every call
  differently, so it is given the position of the call as well: the retry count for a
  single text, the offset of the group for a batch. It throws, or responds with
  \<^verbatim>\<open>response.data\<close> (\<open>None\<close> when that field is missing).
\<close>

datatype embed_input = Single string | Many "string list"

record RemoteError =
  response_status :: "nat option"
  status :: "nat option"
  code :: "string option"

datatype reply = Throws RemoteError | Responds "embedding list option"

type_synonym Remote = "nat \<Rightarrow> embed_input \<Rightarrow> reply"

record EmbeddingService =
  isConfigured :: bool
  client :: "Remote option"

definition isAvailable :: "EmbeddingService \<Rightarrow> bool" where
  "isAvailable service = isConfigured service"

definition trim :: "string \<Rightarrow> string" where
  "trim s = rev (dropWhile isSpace (rev (dropWhile isSpace s)))"

definition preprocessText :: "string \<Rightarrow> string" where
  "preprocessText text' =
     (let cleaned = trim (replaceSpaceRuns '' '' text')
      in if 6000 < length cleaned then take 6000 cleaned else cleaned)"

text \<open>
  \<^verbatim>\<open>(error as any)?.response?.status || (error as any)?.status\<close>: the second status is
  read when the first is missing or zero.
\<close>

definition isRetryableError :: "RemoteError \<Rightarrow> bool" where
  "isRetryableError error =
     (let statusCode = (case response_status error of
                          None \<Rightarrow> status error
                        | Some c \<Rightarrow> if c = 0 then status error else Some c)
      in (case statusCode of None \<Rightarrow> False | Some c \<Rightarrow> c \<in> set [429, 500, 502, 503, 504])
         \<or> code error = Some ''ENOTFOUND'' \<or> code error = Some ''ECONNRESET'')"

text \<open>The waiting between retries and between groups takes time only and is left out.\<close>

function generateEmbedding :: "EmbeddingService \<Rightarrow> string \<Rightarrow> nat \<Rightarrow> embedding option" where
  "generateEmbedding service text' retryCount =
     (case client service of
        None \<Rightarrow> None
      | Some remote \<Rightarrow>
          if \<not> isConfigured service then None
          else let cleanText = preprocessText text' in
            if trim cleanText = [] then None
            else (case remote retryCount (Single cleanText) of
                    Responds data \<Rightarrow> (case data of Some (first # _) \<Rightarrow> Some first | _ \<Rightarrow> None)
                  | Throws error \<Rightarrow>
                      if retryCount < 3 \<and> isRetryableError error
                      then generateEmbedding service text' (retryCount + 1)
                      else None))"
  by pat_completeness auto
termination
  by (relation "measure (\<lambda>(service, text', retryCount). 3 - retryCount)") auto

declare generateEmbedding.simps [simp del]

text \<open>
  The loop of \<^verbatim>\<open>generateBatchEmbeddings\<close>, with its variables \<open>i\<close> and \<open>results\<close>.
  Nothing in it raises but the remote call, which has its own handler, so the outer
  handler of the function is never entered.
\<close>

function batchLoop ::
  "Remote \<Rightarrow> string list \<Rightarrow> nat \<Rightarrow> embedding option list \<Rightarrow> embedding option list" where
  "batchLoop remote texts i results =
     (if i < length texts then
        let batch = take 16 (drop i texts);
            cleanBatch = filter (\<lambda>text'. trim text' \<noteq> []) (map preprocessText batch)
        in if length cleanBatch = 0
           then batchLoop remote texts (i + 16) (results @ replicate (length batch) None)
           else (case remote i (Many cleanBatch) of
                   Responds (Some data) \<Rightarrow>
                     let pushed = results @ map Some data;
                         padded = pushed @ replicate (i + length batch - length pushed) None
                     in batchLoop remote texts (i + 16) padded
                 | Responds None \<Rightarrow>
                     batchLoop remote texts (i + 16) (results @ replicate (length batch) None)
                 | Throws batchError \<Rightarrow>
                     batchLoop remote texts (i + 16) (results @ replicate (length batch) None))
      else results)"
  by pat_completeness auto
termination
  by (relation "measure (\<lambda>(remote, texts, i, results). length texts - i)") auto

declare batchLoop.simps [simp del]

definition generateBatchEmbeddings ::
  "EmbeddingService \<Rightarrow> string list \<Rightarrow> embedding option list" where
  "generateBatchEmbeddings service texts =
     (case client service of
        None \<Rightarrow> map (\<lambda>_. None) texts
      | Some remote \<Rightarrow>
          if \<not> isConfigured service then map (\<lambda>_. None) texts
          else batchLoop remote texts 0 [])"

text \<open>The loop of \<^verbatim>\<open>calculateCosineSimilarity\<close>: (dotProduct, norm1, norm2) after \<open>n\<close> rounds.\<close>

definition cosineLoop :: "embedding \<Rightarrow> embedding \<Rightarrow> nat \<Rightarrow> real \<times> real \<times> real" where
  "cosineLoop embedding1 embedding2 n =
     foldl (\<lambda>(dotProduct, norm1, norm2) i.
              (dotProduct + embedding1 ! i * embedding2 ! i,
               norm1 + embedding1 ! i * embedding1 ! i,
               norm2 + embedding2 ! i * embedding2 ! i))
       (0, 0, 0) [0..<n]"

definition calculateCosineSimilarity :: "embedding \<Rightarrow> embedding \<Rightarrow> fault + real" where
  "calculateCosineSimilarity embedding1 embedding2 =
     (if length embedding1 \<noteq> length embedding2
      then Inl (Error ''Embeddings must have the same dimension'')
      else case cosineLoop embedding1 embedding2 (length embedding1) of
        (dotProduct, norm1sq, norm2sq) \<Rightarrow>
          let norm1 = sqrt norm1sq; norm2 = sqrt norm2sq
          in if norm1 = 0 \<or> norm2 = 0 then Inr 0
             else Inr (dotProduct / (norm1 * norm2)))"

text \<open>The formula of the specification: the dot product over the product of the norms.\<close>

definition dot_product :: "embedding \<Rightarrow> embedding \<Rightarrow> real" where
  "dot_product a b = sum_list (map (\<lambda>(x, y). x * y) (zip a b))"

definition vector_norm :: "embedding \<Rightarrow> real" where
  "vector_norm a = sqrt (dot_product a a)"

section \<open>The fusion and explanation engine (enhanced-ranking-engine.ts)\<close>

record AiRankingFactors =
  semanticSimilarity :: jsnum
  dealQuality :: jsnum
  traditionalRelevance :: jsnum
  finalScore :: jsnum

text \<open>
  \<^verbatim>\<open>dealReason\<close> is the text \<^verbatim>\<open>${recommendation} deal (${overallScore}% quality)\<close>,
  followed by a colon and the comma-joined notable factors when there are any. The
  printing of the number is not modelled: the record keeps the three parts of the text.
\<close>

record DealReason =
  reasonRecommendation :: Recommendation
  reasonOverallScore :: jsnum
  reasonFactors :: "string list"

record Explanation =
  semanticReason :: "string option"
  dealReason :: DealReason
  overallReason :: string

record EnhancedRankedItem = RankedItem +
  semanticScore :: "jsnum option"
  dealScore :: DealScore
  aiRankingFactors :: AiRankingFactors
  explanation :: Explanation

text \<open>
  What the ranking engine works with: the two singleton services it imports and the
  \<^verbatim>\<open>Array.prototype.sort\<close> of the JavaScript runtime that runs it.
\<close>

record Services =
  azureOpenAIService :: EmbeddingService
  mlDealScoringService :: MarketAverages
  sortEngine :: SortEngine

fun join :: "string \<Rightarrow> string list \<Rightarrow> string" where
  "join sep [] = []"
| "join sep [x] = x"
| "join sep (x # y # ys) = x @ sep @ join sep (y # ys)"

definition getTraditionalRanking :: "EbayItem list \<Rightarrow> UserPreferences \<Rightarrow> RankedItem list" where
  "getTraditionalRanking items preferences =
     map (\<lambda>item. calculateRelevanceScore item preferences) items"

text \<open>The function mapped over the item embeddings in \<^verbatim>\<open>calculateSemanticScores\<close>.\<close>

definition similarityScore :: "embedding \<Rightarrow> embedding option \<Rightarrow> jsnum option" where
  "similarityScore queryEmbedding embedding' =
     (case embedding' of
        None \<Rightarrow> None
      | Some e \<Rightarrow>
          (case calculateCosineSimilarity queryEmbedding e of
             Inl error \<Rightarrow> None
           | Inr similarity \<Rightarrow>
               Some (Math_max (Num 0)
                       (Math_min (Num 100) (js_mul (js_add (Num similarity) (Num 1)) (Num 50))))))"

definition calculateSemanticScores ::
  "EmbeddingService \<Rightarrow> EbayItem list \<Rightarrow> string \<Rightarrow> jsnum option list" where
  "calculateSemanticScores service items userQuery =
     (case generateEmbedding service userQuery 0 of
        None \<Rightarrow> map (\<lambda>_. None) items
      | Some queryEmbedding \<Rightarrow>
          let itemTexts = map (\<lambda>item. title item @ '' '' @ descriptionOrEmpty item) items;
              itemEmbeddings = generateBatchEmbeddings service itemTexts
          in map (similarityScore queryEmbedding) itemEmbeddings)"

definition getDealExplanation :: "DealScore \<Rightarrow> DealReason" where
  "getDealExplanation dealScore' =
     \<lparr> reasonRecommendation = recommendation dealScore',
       reasonOverallScore = overallScore dealScore',
       reasonFactors =
         (if js_gt (DealFactors.priceScore (factors dealScore')) (Num 75)
          then [''competitive pricing''] else [])
         @ (if js_gt (DealFactors.sellerScore (factors dealScore')) (Num 85)
            then [''trusted seller''] else [])
         @ (if js_gt (DealFactors.shippingScore (factors dealScore')) (Num 80)
            then [''low shipping cost''] else [])
         @ (if js_gt (DealFactors.conditionScore (factors dealScore')) (Num 80)
            then [''good condition''] else []) \<rparr>"

definition generateExplanation :: "jsnum \<Rightarrow> DealScore \<Rightarrow> RankedItem \<Rightarrow> Explanation" where
  "generateExplanation semanticScore' dealScore' traditionalItem =
     (let semanticReason' =
            (if js_ge semanticScore' (Num 75) then ''Highly relevant to your search intent''
             else if js_ge semanticScore' (Num 60) then ''Good match for your search intent''
             else if js_ge semanticScore' (Num 40) then ''Somewhat relevant to your search''
             else ''Limited relevance to your search intent'');
          dealReason' = getDealExplanation dealScore';
          rf = rankingFactors traditionalItem;
          traditionalFactors =
            (if js_gt (RankingFactors.priceScore rf) (Num 70) then [''great price''] else [])
            @ (if js_gt (RankingFactors.sellerScore rf) (Num 80) then [''excellent seller''] else [])
            @ (if js_gt (RankingFactors.shippingScore rf) (Num 80) then [''free shipping''] else [])
            @ (if js_gt (keywordScore rf) (Num 70) then [''keyword match''] else []);
          overallReason0 =
            (if js_ge semanticScore' (Num 70) \<and> js_ge (overallScore dealScore') (Num 70)
             then ''Excellent match: highly relevant and great deal quality''
             else if js_ge semanticScore' (Num 60) \<or> js_ge (overallScore dealScore') (Num 70)
             then ''Good option: ''
                    @ (if js_ge semanticScore' (Num 60) then ''relevant to your needs''
                       else ''attractive deal'')
             else ''Consider carefully: ''
                    @ (if js_lt semanticScore' (Num 40) then ''limited relevance''
                       else ''fair deal quality''));
          overallReason' =
            (if 0 < length traditionalFactors
             then overallReason0 @ '' ('' @ join '', '' traditionalFactors @ '')''
             else overallReason0)
      in \<lparr> semanticReason = (if truthy semanticScore' then Some semanticReason' else None),
           dealReason = dealReason',
           overallReason = overallReason' \<rparr>)"

text \<open>\<^verbatim>\<open>semanticScore || 50\<close> and \<^verbatim>\<open>semanticScore || undefined\<close>.\<close>

definition orNeutral :: "jsnum option \<Rightarrow> jsnum" where
  "orNeutral semanticScore' =
     (case semanticScore' of
        None \<Rightarrow> Num 50
      | Some score \<Rightarrow> if truthy score then score else Num 50)"

definition orUndefined :: "jsnum option \<Rightarrow> jsnum option" where
  "orUndefined semanticScore' =
     (case semanticScore' of
        None \<Rightarrow> None
      | Some score \<Rightarrow> if truthy score then Some score else None)"

definition combineScores :: "RankedItem \<Rightarrow> jsnum option \<Rightarrow> DealScore \<Rightarrow> EnhancedRankedItem" where
  "combineScores traditionalItem semanticScore' dealScore' =
     (let normalizedTraditional = relevanceScore traditionalItem;
          normalizedSemantic = orNeutral semanticScore';
          normalizedDeal = overallScore dealScore';
          finalScore' =
            js_add (js_add (js_mul normalizedSemantic (Num 0.35))
                           (js_mul normalizedDeal (Num 0.35)))
                   (js_mul normalizedTraditional (Num 0.30));
          explanation' = generateExplanation normalizedSemantic dealScore' traditionalItem
      in \<lparr> listing = listing traditionalItem,
           relevanceScore = finalScore',
           rankingFactors = rankingFactors traditionalItem,
           semanticScore = orUndefined semanticScore',
           dealScore = dealScore',
           aiRankingFactors =
             \<lparr> semanticSimilarity = round2 normalizedSemantic,
               dealQuality = round2 normalizedDeal,
               traditionalRelevance = round2 normalizedTraditional,
               finalScore = round2 finalScore' \<rparr>,
           explanation = explanation' \<rparr>)"

text \<open>\<^verbatim>\<open>semanticScores[index]\<close>: undefined beyond the end of the array.\<close>

definition at_index :: "jsnum option list \<Rightarrow> nat \<Rightarrow> jsnum option" where
  "at_index semanticScores index =
     (if index < length semanticScores then semanticScores ! index else None)"

text \<open>
  The try block of \<^verbatim>\<open>rankItemsWithAI\<close>. On listings that conform to \<^verbatim>\<open>EbayItem\<close> no
  step of it raises (\<^verbatim>\<open>calculateSemanticScores\<close> and \<^verbatim>\<open>scoreDeal\<close> handle their own
  faults), so the handler that calls \<^verbatim>\<open>fallbackToTraditional\<close> is not entered.
\<close>

definition rankItemsWithAI ::
  "Services \<Rightarrow> EbayItem list \<Rightarrow> UserPreferences \<Rightarrow> string option \<Rightarrow> EnhancedRankedItem list" where
  "rankItemsWithAI services items preferences userQuery =
     (let traditionalRanked = getTraditionalRanking items preferences;
          semanticScores =
            (case userQuery of
               None \<Rightarrow> []
             | Some q \<Rightarrow>
                 if q \<noteq> [] \<and> isAvailable (azureOpenAIService services)
                 then calculateSemanticScores (azureOpenAIService services) items q
                 else []);
          dealScores = scoreBatchDeals (mlDealScoringService services) (map runtime items) None;
          enhancedItems =
            map (\<lambda>index. combineScores (traditionalRanked ! index)
                            (at_index semanticScores index) (dealScores ! index))
              [0..<length traditionalRanked]
      in Array_sort (sortEngine services)
           (\<lambda>a b. js_sub (finalScore (aiRankingFactors b)) (finalScore (aiRankingFactors a)))
           enhancedItems)"

text \<open>
  Step 4 of \<^verbatim>\<open>rankItemsWithAI\<close> for given semantic scores, with
  \<^verbatim>\<open>traditionalRanked[index]\<close> and \<^verbatim>\<open>dealScores[index]\<close> written as the values the two
  maps over the listings put there.
\<close>

definition enhancedItems ::
  "Services \<Rightarrow> EbayItem list \<Rightarrow> UserPreferences \<Rightarrow> jsnum option list
     \<Rightarrow> EnhancedRankedItem list" where
  "enhancedItems services items preferences semanticScores =
     map (\<lambda>index. combineScores (calculateRelevanceScore (items ! index) preferences)
                     (at_index semanticScores index)
                     (scoreDeal (mlDealScoringService services) (runtime (items ! index)) None))
       [0..<length items]"

section \<open>Sample data\<close>

definition sampleItem :: EbayItem where
  "sampleItem =
     \<lparr> itemId = ''v1|110'', title = ''Phone Case Blue'',
       price = \<lparr> parsedValue = Num 80, currency = ''USD'' \<rparr>,
       imageUrl = None, itemWebUrl = ''https://www.ebay.com/itm/110'', condition = ''NEW'',
       seller = \<lparr> username = ''case_shop'', feedbackPercentage = Num 99,
                  feedbackScore = Num 1520 \<rparr>,
       shippingOptions = Some [\<lparr> shippingCost = \<lparr> parsedValue = Num 0, currency = ''USD'' \<rparr>,
                                shippingType = ''FIXED'' \<rparr>],
       country = Some ''US'', shortDescription = None \<rparr>"

definition cheaperItem :: EbayItem where
  "cheaperItem =
     sampleItem\<lparr>itemId := ''v1|112'', price := \<lparr>parsedValue = Num 40, currency = ''USD''\<rparr>\<rparr>"

text \<open>A listing with a negative price, and one whose price string is not a number.\<close>

definition refundItem :: EbayItem where
  "refundItem =
     sampleItem\<lparr>itemId := ''v1|113'', price := \<lparr>parsedValue = Num (- 10), currency = ''USD''\<rparr>\<rparr>"

definition unpricedItem :: EbayItem where
  "unpricedItem =
     sampleItem\<lparr>itemId := ''v1|111'', price := \<lparr>parsedValue = NaN, currency = ''USD''\<rparr>\<rparr>"

definition describedItem :: EbayItem where
  "describedItem = sampleItem\<lparr>itemId := ''v1|114'', shortDescription := Some ''leather''\<rparr>"

definition samplePreferences :: UserPreferences where
  "samplePreferences =
     \<lparr> maxPrice = Some (Num 100), preferredCondition = Some [''USED''],
       minimumSellerRating = Some (Num 95), freeShippingOnly = Some True,
       preferredCountries = None, prefKeywords = Some [''phone'', ''case''] \<rparr>"

definition keywordPreferences :: UserPreferences where
  "keywordPreferences =
     \<lparr> maxPrice = None, preferredCondition = None, minimumSellerRating = None,
       freeShippingOnly = None, preferredCountries = None, prefKeywords = Some [''leather''] \<rparr>"

text \<open>
  A remote service that answers every call, with one embedding for each input; the sample
  services run on V8.
\<close>

definition sampleRemote :: Remote where
  "sampleRemote position input =
     (case input of
        Single text' \<Rightarrow> Responds (Some [[1, 0]])
      | Many texts \<Rightarrow> Responds (Some (map (\<lambda>text'. [real (length text'), 1]) texts)))"

definition sampleServices :: Services where
  "sampleServices =
     \<lparr> azureOpenAIService = \<lparr> isConfigured = True, client = Some sampleRemote \<rparr>,
       mlDealScoringService = initializeMarketAverages,
       sortEngine = v8_engine \<rparr>"

text \<open>A listing object that arrives without its \<^verbatim>\<open>seller\<close>.\<close>

definition sellerlessListing :: RuntimeListing where
  "sellerlessListing = (runtime sampleItem)\<lparr>rt_seller := None\<rparr>"

section \<open>Arithmetic on numbers\<close>

lemma js_gt_Num [simp]: "js_gt (Num a) (Num b) = (b < a)"
  by (simp add: js_gt_def)

lemma js_le_Num [simp]: "js_le (Num a) (Num b) = (a \<le> b)"
  by (auto simp: js_le_def)

lemma js_ge_Num [simp]: "js_ge (Num a) (Num b) = (b \<le> a)"
  by (simp add: js_ge_def)

lemma js_sub_Num [simp]: "js_sub (Num a) (Num b) = Num (a - b)"
  by (simp add: js_sub_def)

lemma js_eq_Num [simp]: "js_eq (Num a) (Num b) = (a = b)"
  by (simp add: js_eq_def)

lemma Math_max_Num [simp]: "Math_max (Num a) (Num b) = Num (max a b)"
  by (auto simp: Math_max_def)

lemma Math_min_Num [simp]: "Math_min (Num a) (Num b) = Num (min a b)"
  by (auto simp: Math_min_def)

lemma round2_Num [simp]: "round2 (Num a) = Num (of_int \<lfloor>a * 100 + 1 / 2\<rfloor> / 100)"
  by (simp add: round2_def)

lemma js_NaN_absorbs [simp]:
  "js_add x NaN = NaN" "js_mul x NaN = NaN" "js_div x NaN = NaN"
  "js_sub x NaN = NaN" "js_sub NaN x = NaN" "round2 NaN = NaN"
  "Math_max x NaN = NaN" "Math_max NaN x = NaN" "Math_min x NaN = NaN" "Math_min NaN x = NaN"
  by (cases x; simp add: js_sub_def round2_def Math_max_def Math_min_def)+

lemma js_ge_total: "x \<noteq> NaN \<Longrightarrow> y \<noteq> NaN \<Longrightarrow> \<not> js_lt x y \<Longrightarrow> js_ge x y"
  by (simp add: js_ge_def js_le_def)

lemma js_lt_imp_ge: "js_lt x y \<Longrightarrow> js_ge y x"
  by (cases x; cases y) (auto simp: js_ge_def js_le_def)

lemma js_ge_trans: "js_ge x y \<Longrightarrow> js_ge y z \<Longrightarrow> js_ge x z"
  by (cases x; cases y; cases z) (auto simp: js_ge_def js_le_def)

text \<open>The comparator \<^verbatim>\<open>(a, b) => b.key - a.key\<close> is positive exactly when \<open>a\<close> is smaller.\<close>

lemma cmp_desc_positive:
  "x \<noteq> NaN \<Longrightarrow> y \<noteq> NaN \<Longrightarrow> js_gt (js_sub y x) (Num 0) = js_lt x y"
  by (cases x; cases y) (auto simp: js_gt_def js_sub_def)

section \<open>The sort\<close>

lemma mset_js_insert: "mset (js_insert cmp x xs) = add_mset x (mset xs)"
  by (induction xs) auto

lemma mset_js_sort: "mset (js_sort cmp xs) = mset xs"
  by (induction xs) (auto simp: mset_js_insert)

lemma set_js_insert: "set (js_insert cmp x xs) = insert x (set xs)"
  by (induction xs) auto

lemma set_js_sort: "set (js_sort cmp xs) = set xs"
  by (induction xs) (auto simp: set_js_insert)

lemma length_js_sort: "length (js_sort cmp xs) = length xs"
proof -
  have "size (mset (js_sort cmp xs)) = size (mset xs)"
    by (simp add: mset_js_sort)
  then show ?thesis by simp
qed

lemma sorted_js_insert:
  assumes "sorted_wrt (\<lambda>a b. js_ge (k a) (k b)) ys" "k x \<noteq> NaN" "\<forall>y \<in> set ys. k y \<noteq> NaN"
  shows "sorted_wrt (\<lambda>a b. js_ge (k a) (k b)) (js_insert (\<lambda>a b. js_sub (k b) (k a)) x ys)"
  using assms
proof (induction ys)
  case Nil
  then show ?case by simp
next
  case (Cons y ys)
  show ?case
  proof (cases "js_lt (k x) (k y)")
    case True
    have yx: "js_ge (k y) (k x)" using True by (rule js_lt_imp_ge)
    have "\<forall>z \<in> set (js_insert (\<lambda>a b. js_sub (k b) (k a)) x ys). js_ge (k y) (k z)"
      using Cons.prems(1) yx by (auto simp: set_js_insert)
    then show ?thesis using Cons True
      by (simp add: cmp_desc_positive)
  next
    case False
    have xy: "js_ge (k x) (k y)" using False Cons.prems by (simp add: js_ge_total)
    have "\<forall>z \<in> set ys. js_ge (k x) (k z)"
      using Cons.prems(1) xy js_ge_trans by fastforce
    then show ?thesis using Cons.prems False xy
      by (simp add: cmp_desc_positive)
  qed
qed

lemma sorted_js_sort:
  assumes "\<forall>x \<in> set xs. k x \<noteq> NaN"
  shows "sorted_wrt (\<lambda>a b. js_ge (k a) (k b)) (js_sort (\<lambda>a b. js_sub (k b) (k a)) xs)"
  using assms
  by (induction xs) (auto simp: sorted_js_insert set_js_sort)

text \<open>Whatever the engine answers, the sorted list is a permutation of the list.\<close>

lemma mset_arrange: "mset (arrange order xs) = mset xs"
proof -
  define named where "named = remdups (filter (\<lambda>i. i < length xs) order)"
  define others where "others = filter (\<lambda>i. i \<notin> set named) [0..<length xs]"
  have d: "distinct named" by (simp add: named_def)
  have s: "set named \<subseteq> {0..<length xs}" by (auto simp: named_def)
  have "distinct (filter (\<lambda>i. i \<in> set named) [0..<length xs])" by simp
  moreover have "set (filter (\<lambda>i. i \<in> set named) [0..<length xs]) = set named"
    using s by auto
  ultimately have n: "mset named = mset (filter (\<lambda>i. i \<in> set named) [0..<length xs])"
    using d by (metis set_eq_iff_mset_eq_distinct)
  have "mset (filter (\<lambda>i. i \<in> set named) [0..<length xs]) + mset others = mset [0..<length xs]"
    unfolding others_def mset_filter by (rule multiset_partition [symmetric])
  then have "mset (named @ others) = mset [0..<length xs]"
    using n by simp
  then have "image_mset (\<lambda>i. xs ! i) (mset (named @ others)) =
             image_mset (\<lambda>i. xs ! i) (mset [0..<length xs])"
    by (rule arg_cong)
  then have "mset (map (\<lambda>i. xs ! i) (named @ others)) = mset (map (\<lambda>i. xs ! i) [0..<length xs])"
    by (simp only: mset_map)
  then show ?thesis
    by (simp add: arrange_def Let_def named_def others_def map_nth)
qed

lemma mset_Array_sort: "mset (Array_sort engine cmp xs) = mset xs"
  by (simp add: Array_sort_def mset_js_sort mset_arrange)

lemma set_Array_sort: "set (Array_sort engine cmp xs) = set xs"
  by (rule mset_eq_setD) (rule mset_Array_sort)

lemma length_Array_sort: "length (Array_sort engine cmp xs) = length xs"
  by (rule mset_eq_length) (rule mset_Array_sort)

text \<open>
  Under the comparator \<^verbatim>\<open>(a, b) => b.key - a.key\<close> the comparisons are consistent on every
  list without a NaN key, and on every list of one element: there the order does not
  depend on the engine.
\<close>

lemma cf_lt_desc:
  "k a \<noteq> NaN \<Longrightarrow> k b \<noteq> NaN \<Longrightarrow> cf_lt (\<lambda>a b. js_sub (k b) (k a)) a b = js_lt (k b) (k a)"
  by (cases "k a"; cases "k b") (auto simp: cf_lt_def SortCompare_def js_sub_def)

lemma cf_gt_desc:
  "k a \<noteq> NaN \<Longrightarrow> k b \<noteq> NaN \<Longrightarrow> cf_gt (\<lambda>a b. js_sub (k b) (k a)) a b = js_lt (k a) (k b)"
  by (cases "k a"; cases "k b") (auto simp: cf_gt_def js_gt_def SortCompare_def js_sub_def)

lemma js_lt_trans: "js_lt x y \<Longrightarrow> js_lt y z \<Longrightarrow> js_lt x z"
  by (cases x; cases y; cases z) auto

lemma js_lt_irrefl: "\<not> js_lt x x"
  by (cases x) auto

lemma js_lt_negtrans:
  "x \<noteq> NaN \<Longrightarrow> y \<noteq> NaN \<Longrightarrow> z \<noteq> NaN \<Longrightarrow> \<not> js_lt x y \<Longrightarrow> \<not> js_lt y z \<Longrightarrow> \<not> js_lt x z"
  by (cases x; cases y; cases z) auto

lemma consistent_desc:
  assumes "\<forall>x \<in> set xs. k x \<noteq> NaN"
  shows "consistent (\<lambda>a b. js_sub (k b) (k a)) xs"
  unfolding consistent_def list_all_iff
proof (intro ballI conjI)
  fix a assume a: "a \<in> set xs"
  show "cf_eq (\<lambda>a b. js_sub (k b) (k a)) a a"
    using a assms by (simp add: cf_eq_def cf_lt_desc cf_gt_desc js_lt_irrefl)
  fix b assume b: "b \<in> set xs"
  show "if cf_eq (\<lambda>a b. js_sub (k b) (k a)) a b
        then cf_eq (\<lambda>a b. js_sub (k b) (k a)) b a else True"
    using a b assms by (simp add: cf_eq_def cf_lt_desc cf_gt_desc)
  fix c assume c: "c \<in> set xs"
  have n: "k a \<noteq> NaN" "k b \<noteq> NaN" "k c \<noteq> NaN" using a b c assms by auto
  show "if cf_eq (\<lambda>a b. js_sub (k b) (k a)) a b \<and> cf_eq (\<lambda>a b. js_sub (k b) (k a)) b c
        then cf_eq (\<lambda>a b. js_sub (k b) (k a)) a c else True"
    using n js_lt_negtrans [of "k a" "k b" "k c"] js_lt_negtrans [of "k c" "k b" "k a"]
    by (simp add: cf_eq_def cf_lt_desc cf_gt_desc)
  show "if cf_lt (\<lambda>a b. js_sub (k b) (k a)) a b \<and> cf_lt (\<lambda>a b. js_sub (k b) (k a)) b c
        then cf_lt (\<lambda>a b. js_sub (k b) (k a)) a c else True"
    using n js_lt_trans [of "k c" "k b" "k a"] by (simp add: cf_lt_desc)
  show "if cf_gt (\<lambda>a b. js_sub (k b) (k a)) a b \<and> cf_gt (\<lambda>a b. js_sub (k b) (k a)) b c
        then cf_gt (\<lambda>a b. js_sub (k b) (k a)) a c else True"
    using n js_lt_trans [of "k a" "k b" "k c"] by (simp add: cf_gt_desc)
qed

lemma sorted_Array_sort:
  assumes "\<forall>x \<in> set xs. k x \<noteq> NaN"
  shows "sorted_wrt (\<lambda>a b. js_ge (k a) (k b)) (Array_sort engine (\<lambda>a b. js_sub (k b) (k a)) xs)"
  using assms by (simp add: Array_sort_def consistent_desc sorted_js_sort)

lemma consistent_single: "consistent (\<lambda>a b. js_sub (k b) (k a)) [x]"
  by (cases "k x") (simp_all add: consistent_def cf_eq_def cf_lt_def cf_gt_def js_gt_def
       SortCompare_def js_sub_def)

lemma Array_sort_single: "Array_sort engine (\<lambda>a b. js_sub (k b) (k a)) [x] = [x]"
  by (simp add: Array_sort_def consistent_single)



text \<open>
  Four keys, the third NaN: V8 finds the first two descending under the comparator and
  reverses them, leaves the NaN key behind them, and inserts the fourth between them.
\<close>

lemma v8_engine_example:
  "map fst (Array_sort v8_engine (\<lambda>p q. js_sub (snd q) (snd p))
     [(0::nat, Num 51.87), (1, Num 59.37), (2, NaN), (3, Num 59.37)]) = [1, 3, 0, 2]"
proof -
  have c: "\<not> consistent (\<lambda>p q. js_sub (snd q) (snd p))
     [(0::nat, Num 51.87), (1, Num 59.37), (2, NaN), (3, Num 59.37)]"
    by (simp add: consistent_def cf_eq_def cf_lt_def cf_gt_def js_gt_def SortCompare_def js_sub_def)
  have e: "v8_engine (map (\<lambda>p. map (\<lambda>q. SortCompare (\<lambda>p q. js_sub (snd q) (snd p)) p q)
       [(0::nat, Num 51.87), (1, Num 59.37), (2, NaN), (3, Num 59.37)])
       [(0::nat, Num 51.87), (1, Num 59.37), (2, NaN), (3, Num 59.37)]) = [1, 3, 0, 2]"
    by (simp add: v8_engine_def v8_sort_def upt_rec SortCompare_def js_sub_def binaryInsert_def
          binarySearch.simps)
  show ?thesis
    by (simp only: Array_sort_def c e if_False) (simp add: arrange_def upt_rec)
qed

text \<open>The sort of \<^verbatim>\<open>rankItems\<close> gives the same list on every engine.\<close>

lemma rankItems_on_every_engine:
  "Array_sort engine (\<lambda>a b. js_sub (relevanceScore b) (relevanceScore a))
     (filter (\<lambda>item. js_gt (relevanceScore item) (Num 0))
        (map (\<lambda>item. calculateRelevanceScore item preferences) items))
   = rankItems items preferences"
proof -
  have "\<forall>x \<in> set (filter (\<lambda>item. js_gt (relevanceScore item) (Num 0))
           (map (\<lambda>item. calculateRelevanceScore item preferences) items)).
          relevanceScore x \<noteq> NaN"
    by (auto simp: js_gt_def)
  then show ?thesis
    by (simp only: Array_sort_def rankItems_def consistent_desc if_True)
qed

section \<open>The preference sub-scores\<close>

lemma sample_scores:
  "calculatePriceScore sampleItem (Some (Num 100)) = Num 60"
  "calculateSellerScore sampleItem (Some (Num 95)) = Num 58"
  "calculateConditionScore sampleItem (Some [''USED'']) = Num 20"
  "calculateKeywordScore sampleItem (Some [''phone'', ''case'']) = Num 100"
  "calculateShippingScore sampleItem (Some True) = Num 100"
  by (simp_all add: sampleItem_def calculatePriceScore_def calculateSellerScore_def
        calculateConditionScore_def calculateKeywordScore_def calculateShippingScore_def
        toUpperCase_def toUpperChar_def toLowerCase_def toLowerChar_def descriptionOrEmpty_def)

lemma rankingFactors_calculateRelevanceScore:
  "rankingFactors (calculateRelevanceScore item preferences) =
     \<lparr> RankingFactors.priceScore = calculatePriceScore item (maxPrice preferences),
       RankingFactors.conditionScore = calculateConditionScore item (preferredCondition preferences),
       RankingFactors.sellerScore = calculateSellerScore item (minimumSellerRating preferences),
       RankingFactors.shippingScore = calculateShippingScore item (freeShippingOnly preferences),
       keywordScore = calculateKeywordScore item (prefKeywords preferences) \<rparr>"
  by (simp add: calculateRelevanceScore_def Let_def)

lemma relevanceScore_calculateRelevanceScore:
  "relevanceScore (calculateRelevanceScore item preferences) =
     round2 (js_add (js_add (js_add (js_add
       (js_mul (calculatePriceScore item (maxPrice preferences)) (Num 0.25))
       (js_mul (calculateConditionScore item (preferredCondition preferences)) (Num 0.15)))
       (js_mul (calculateSellerScore item (minimumSellerRating preferences)) (Num 0.20)))
       (js_mul (calculateShippingScore item (freeShippingOnly preferences)) (Num 0.15)))
       (js_mul (calculateKeywordScore item (prefKeywords preferences)) (Num 0.25)))"
  by (simp add: calculateRelevanceScore_def Let_def)

lemma listing_calculateRelevanceScore [simp]:
  "listing (calculateRelevanceScore item preferences) = item"
  by (simp add: calculateRelevanceScore_def Let_def)

lemma sample_relevance:
  "relevanceScore (calculateRelevanceScore sampleItem samplePreferences) = Num 69.6"
  by (simp add: relevanceScore_calculateRelevanceScore samplePreferences_def sample_scores)

lemma price_formula:
  "m \<noteq> 0 \<Longrightarrow> parsedValue (price item) = Num p \<Longrightarrow>
   calculatePriceScore item (Some (Num m)) =
     (if m < p then Num 0 else Num (max 0 (100 - 50 * (p / m))))"
  by (simp add: calculatePriceScore_def Let_def mult.commute)

lemma price_mono:
  assumes "0 < m" "js_le (parsedValue (price a)) (parsedValue (price b))"
  shows "js_le (calculatePriceScore b (Some (Num m))) (calculatePriceScore a (Some (Num m)))"
proof (cases "parsedValue (price a)")
  case (Num p)
  note pa = this
  show ?thesis
  proof (cases "parsedValue (price b)")
    case (Num q)
    from assms Num pa have pq: "p \<le> q" by simp
    have "q / m * 50 \<ge> p / m * 50" using pq assms(1) by (simp add: divide_right_mono)
    then show ?thesis using assms(1) Num pa pq
      by (auto simp: calculatePriceScore_def Let_def max_def)
  next
    case PInf
    then show ?thesis using assms(1) pa
      by (auto simp: calculatePriceScore_def Let_def js_gt_def max_def)
  next
    case NInf
    then show ?thesis using assms pa by (simp add: js_le_def)
  next
    case NaN
    then show ?thesis using assms by (simp add: js_le_def)
  qed
next
  case PInf
  then show ?thesis using assms
    by (cases "parsedValue (price b)")
       (auto simp: calculatePriceScore_def Let_def js_gt_def js_le_def)
next
  case NInf
  then show ?thesis using assms
    by (cases "parsedValue (price b)")
       (auto simp: calculatePriceScore_def Let_def js_gt_def js_le_def js_sub_def Math_max_def)
next
  case NaN
  then show ?thesis using assms by (simp add: js_le_def)
qed

lemma keyword_bounds:
  "\<exists>k. calculateKeywordScore item ks = Num k \<and> 0 \<le> k \<and> k \<le> 100"
proof (cases ks)
  case None
  then show ?thesis by (simp add: calculateKeywordScore_def)
next
  case (Some l)
  then show ?thesis
    by (cases "length l = 0") (simp_all add: calculateKeywordScore_def Let_def)
qed

lemma condition_bounds:
  "\<exists>c. calculateConditionScore item cs = Num c \<and> 0 \<le> c \<and> c \<le> 100"
  by (simp add: calculateConditionScore_def Let_def split: option.split)

lemma shipping_bounds:
  "\<exists>h. calculateShippingScore item f = Num h \<and> 0 \<le> h \<and> h \<le> 100"
  by (simp add: calculateShippingScore_def Let_def)

lemma seller_bounds:
  assumes "feedbackPercentage (seller item) = Num r"
  shows "\<exists>s. calculateSellerScore item m = Num s \<and> 0 \<le> s \<and> s \<le> 100"
proof (cases m)
  case None
  then show ?thesis by (simp add: calculateSellerScore_def)
next
  case (Some x)
  then show ?thesis using assms
    by (cases x) (auto simp: calculateSellerScore_def Let_def js_sub_def Math_min_def)
qed

lemma price_finite:
  assumes "parsedValue (price item) = Num p"
  shows "\<exists>s. calculatePriceScore item m = Num s \<and> 0 \<le> s \<and> (0 \<le> p \<longrightarrow> s \<le> 100)"
proof (cases m)
  case None
  then show ?thesis by (simp add: calculatePriceScore_def)
next
  case (Some x)
  show ?thesis
  proof (cases x)
    case (Num b)
    have "0 \<le> p / b" if "\<not> b < p" "b \<noteq> 0" "0 \<le> p" using that by simp
    then show ?thesis using Some Num assms
      by (auto simp: calculatePriceScore_def Let_def)
  next
    case PInf
    then show ?thesis using Some assms
      by (auto simp: calculatePriceScore_def Let_def js_gt_def)
  next
    case NInf
    then show ?thesis using Some assms
      by (auto simp: calculatePriceScore_def Let_def js_gt_def)
  next
    case NaN
    then show ?thesis using Some by (simp add: calculatePriceScore_def)
  qed
qed

text \<open>
  C5, amended. For a max price that is a non-zero number the price sub-score is 0 when
  the price exceeds it and \<open>max(0, 100 - 50 * (price / maxPrice))\<close> otherwise; for a
  positive max price it is non-increasing in the listing price; price 80 with max price
  100 gives 60.
\<close>

theorem calculatePriceScore_nonzero_budget:
  "(m \<noteq> 0 \<longrightarrow> parsedValue (price item) = Num p \<longrightarrow>
      calculatePriceScore item (Some (Num m)) =
        (if m < p then Num 0 else Num (max 0 (100 - 50 * (p / m)))))
   \<and> (0 < m \<longrightarrow> js_le (parsedValue (price a)) (parsedValue (price b)) \<longrightarrow>
        js_le (calculatePriceScore b (Some (Num m))) (calculatePriceScore a (Some (Num m))))
   \<and> (parsedValue (price item) = Num 80 \<longrightarrow>
        calculatePriceScore item (Some (Num 100)) = Num 60)"
  using price_formula [of m item p] price_formula [of 100 item 80] price_mono [of m a b]
  by simp

theorem calculatePriceScore_nonzero_budget_witness:
  "calculatePriceScore sampleItem (Some (Num 100)) = Num (max 0 (100 - 50 * (80 / 100)))
   \<and> js_le (calculatePriceScore sampleItem (Some (Num 100)))
            (calculatePriceScore cheaperItem (Some (Num 100)))
   \<and> calculatePriceScore sampleItem (Some (Num 100)) = Num 60"
proof -
  have p: "parsedValue (price sampleItem) = Num 80"
    by (simp add: sampleItem_def)
  have q: "js_le (parsedValue (price cheaperItem)) (parsedValue (price sampleItem))"
    by (simp add: sampleItem_def cheaperItem_def)
  show ?thesis
    using calculatePriceScore_nonzero_budget [of 100 sampleItem 80 cheaperItem sampleItem] p q
    by auto
qed

text \<open>
  C5 as stated fails for the max price 0: the listing price 80 exceeds it, and the
  sub-score is 50, not 0.
\<close>

theorem calculatePriceScore_zero_budget_counterexample:
  "js_gt (parsedValue (price sampleItem)) (Num 0)
   \<and> calculatePriceScore sampleItem (Some (Num 0)) = Num 50
   \<and> calculatePriceScore sampleItem (Some (Num 0)) \<noteq> Num 0"
  by (simp add: calculatePriceScore_def sampleItem_def)

text \<open>
  C10. A max price of 0 and a minimum seller rating of 0 or NaN give the neutral
  sub-score 50 for every listing, as the absent preference does.
\<close>

theorem falsy_preference_is_neutral:
  "calculatePriceScore item (Some (Num 0)) = Num 50
   \<and> calculatePriceScore item None = Num 50
   \<and> calculateSellerScore item (Some (Num 0)) = Num 50
   \<and> calculateSellerScore item (Some NaN) = Num 50
   \<and> calculateSellerScore item None = Num 50"
  by (simp add: calculatePriceScore_def calculateSellerScore_def)

theorem falsy_preference_is_neutral_witness:
  "calculatePriceScore sampleItem (Some (Num 0)) = Num 50
   \<and> calculateSellerScore sampleItem (Some (Num 0)) = Num 50
   \<and> calculateSellerScore sampleItem (Some NaN) = Num 50"
  using falsy_preference_is_neutral [of sampleItem] by simp

text \<open>
  The composite is the weighted sum of the five sub-scores, rounded to two decimals, for
  every listing. With \<open>condition_bounds\<close>, \<open>shipping_bounds\<close>, \<open>keyword_bounds\<close>,
  \<open>seller_bounds\<close> and \<open>price_finite\<close> this is what holds of the sub-scores: three are in
  [0, 100] for every listing, the seller sub-score whenever the feedback percentage is a
  number, and the price sub-score is at least 0 whenever the price is a number and at
  most 100 whenever that number is not negative.
\<close>

lemma relevance_is_weighted_sum:
  "relevanceScore (calculateRelevanceScore item preferences) =
     round2 (js_add (js_add (js_add (js_add
       (js_mul (RankingFactors.priceScore
                  (rankingFactors (calculateRelevanceScore item preferences))) (Num 0.25))
       (js_mul (RankingFactors.conditionScore
                  (rankingFactors (calculateRelevanceScore item preferences))) (Num 0.15)))
       (js_mul (RankingFactors.sellerScore
                  (rankingFactors (calculateRelevanceScore item preferences))) (Num 0.20)))
       (js_mul (RankingFactors.shippingScore
                  (rankingFactors (calculateRelevanceScore item preferences))) (Num 0.15)))
       (js_mul (keywordScore
                  (rankingFactors (calculateRelevanceScore item preferences))) (Num 0.25)))"
  by (simp add: calculateRelevanceScore_def Let_def)

text \<open>
  C6 at a listing with the price -10 and the max price 100: the price sub-score is 105,
  outside the range that the claim states and that the comment of
  \<^verbatim>\<open>calculatePriceScore\<close>, \<^verbatim>\<open>Calculate price score (0-100)\<close>, gives. The result is
  bounded below by \<^verbatim>\<open>Math.max(0, ...)\<close> but not above, as the seller and keyword
  sub-scores are by \<^verbatim>\<open>Math.min(100, ...)\<close>. The four other sub-scores of the listing
  are in range.
\<close>

theorem priceScore_above_100_for_negative_price:
  "rankingFactors (calculateRelevanceScore refundItem samplePreferences) =
     \<lparr> RankingFactors.priceScore = Num 105, RankingFactors.conditionScore = Num 20,
       RankingFactors.sellerScore = Num 58, RankingFactors.shippingScore = Num 100,
       keywordScore = Num 100 \<rparr>
   \<and> \<not> js_le (RankingFactors.priceScore
                (rankingFactors (calculateRelevanceScore refundItem samplePreferences)))
          (Num 100)"
  by (simp add: rankingFactors_calculateRelevanceScore samplePreferences_def refundItem_def
        sampleItem_def calculatePriceScore_def calculateSellerScore_def
        calculateConditionScore_def calculateKeywordScore_def calculateShippingScore_def
        toUpperCase_def toUpperChar_def toLowerCase_def toLowerChar_def descriptionOrEmpty_def)
section \<open>The deal quality model\<close>

lemma bind_fault_simps [simp]:
  "bind_fault (Inl e) f = Inl e"
  "bind_fault (Inr v) f = f v"
  by (simp_all add: bind_fault_def)

lemma prop_of_simps [simp]:
  "prop_of None = Inl TypeError"
  "prop_of (Some v) = Inr v"
  by (simp_all add: prop_of_def)

lemma calculateTitleQuality_Num: "\<exists>q. calculateTitleQuality t = Num q"
  unfolding calculateTitleQuality_def Let_def
  by (simp only: Math_max_Num Math_min_Num) blast

lemma deal_calculateConditionScore_Num: "\<exists>q. deal_calculateConditionScore c = Num q"
  unfolding deal_calculateConditionScore_def Let_def
  by (cases "conditionMap (replaceSpaceRuns ''_'' (toUpperCase c))")
     (simp_all only: option.case, blast+)

lemma one_plus_exp_nonzero [simp]: "1 + exp (x :: real) \<noteq> 0"
  using exp_gt_zero [of x] by linarith

lemma calculateDealScore_Num:
  assumes "priceVsAverage f = Num a" "sellerRating f = Num b" "shippingCostRatio f = Num c"
    "DealFeatures.conditionScore f = Num d" "titleQualityScore f = Num e"
    "listingAgeScore f = Num g" "bidCountScore f = Num h"
  shows "\<exists>x. calculateDealScore f = Num x"
  unfolding calculateDealScore_def Let_def assms
  by (simp only: js_mul.simps js_add.simps js_neg.simps Math_exp.simps js_div.simps
        one_plus_exp_nonzero if_True not_False_eq_True) blast

lemma shippingRatio_faults:
  "(\<exists>e. calculateShippingRatio item p = Inl e) \<longleftrightarrow>
   (\<exists>rest. rt_shippingOptions item = Some (None # rest))"
proof (cases "rt_shippingOptions item")
  case None
  then show ?thesis by (simp add: calculateShippingRatio_def)
next
  case (Some opts)
  show ?thesis
  proof (cases opts)
    case Nil
    then show ?thesis using Some by (simp add: calculateShippingRatio_def)
  next
    case (Cons first rest)
    then show ?thesis using Some
      by (cases first) (simp_all add: calculateShippingRatio_def Let_def)
  qed
qed

lemma scoreDeal_try_faults:
  "(\<exists>e. scoreDeal_try avgs item cat = Inl e) \<longleftrightarrow>
     (rt_price item = None \<or> rt_seller item = None
      \<or> (\<exists>rest. rt_shippingOptions item = Some (None # rest))
      \<or> rt_condition item = None \<or> rt_title item = None)"
proof (cases "rt_price item")
  case None
  then show ?thesis by (simp add: scoreDeal_try_def extractFeatures_def)
next
  case (Some p)
  show ?thesis
  proof (cases "calculateShippingRatio item p")
    case (Inl e)
    then have "\<exists>rest. rt_shippingOptions item = Some (None # rest)"
      using shippingRatio_faults [of item p] by blast
    then show ?thesis using Some Inl
      by (cases "rt_seller item") (auto simp: scoreDeal_try_def extractFeatures_def Let_def)
  next
    case (Inr ratio)
    then have "\<not> (\<exists>rest. rt_shippingOptions item = Some (None # rest))"
      using shippingRatio_faults [of item p] by auto
    then show ?thesis using Some Inr
      by (cases "rt_seller item"; cases "rt_condition item"; cases "rt_title item")
         (auto simp: scoreDeal_try_def extractFeatures_def Let_def)
  qed
qed

text \<open>
  C4. \<open>scoreDeal\<close> is a total function: it returns a score for every listing object
  and category. Its body faults exactly when the price, the seller, the cost of the
  first shipping option, the condition or the title is missing from the object, and then
  the result is the neutral score: overall 50, confidence 0.1, the six factors 50,
  recommendation fair.
\<close>

theorem scoreDeal_returns_neutral_on_fault:
  "(scoreDeal_try avgs item cat = Inl e \<longrightarrow>
      scoreDeal avgs item cat =
        \<lparr> overallScore = Num 50, confidence = Num 0.1,
          factors = \<lparr> DealFactors.priceScore = Num 50, DealFactors.sellerScore = Num 50,
                      DealFactors.shippingScore = Num 50, DealFactors.conditionScore = Num 50,
                      titleScore = Num 50, freshnessScore = Num 50 \<rparr>,
          recommendation = Fair \<rparr>)
   \<and> (scoreDeal_try avgs item cat = Inr score \<longrightarrow> scoreDeal avgs item cat = score)
   \<and> ((\<exists>e. scoreDeal_try avgs item cat = Inl e) \<longleftrightarrow>
        (rt_price item = None \<or> rt_seller item = None
         \<or> (\<exists>rest. rt_shippingOptions item = Some (None # rest))
         \<or> rt_condition item = None \<or> rt_title item = None))"
  using scoreDeal_try_faults [of avgs item cat]
  by (simp add: scoreDeal_def)

theorem scoreDeal_returns_neutral_on_fault_witness:
  "scoreDeal_try initializeMarketAverages sellerlessListing None = Inl TypeError
   \<and> scoreDeal initializeMarketAverages sellerlessListing None =
        \<lparr> overallScore = Num 50, confidence = Num 0.1,
          factors = \<lparr> DealFactors.priceScore = Num 50, DealFactors.sellerScore = Num 50,
                      DealFactors.shippingScore = Num 50, DealFactors.conditionScore = Num 50,
                      titleScore = Num 50, freshnessScore = Num 50 \<rparr>,
          recommendation = Fair \<rparr>"
proof -
  have f: "scoreDeal_try initializeMarketAverages sellerlessListing None = Inl TypeError"
    by (simp add: scoreDeal_try_def extractFeatures_def sellerlessListing_def runtime_def Let_def)
  show ?thesis
    using scoreDeal_returns_neutral_on_fault
      [of initializeMarketAverages sellerlessListing None TypeError] f
    by simp
qed

section \<open>The cosine similarity\<close>

lemma cosineLoop_sums:
  "n \<le> length a \<Longrightarrow> n \<le> length b \<Longrightarrow>
   cosineLoop a b n =
     (dot_product (take n a) (take n b), dot_product (take n a) (take n a),
      dot_product (take n b) (take n b))"
proof (induction n)
  case 0
  then show ?case by (simp add: cosineLoop_def dot_product_def)
next
  case (Suc n)
  then have IH: "cosineLoop a b n =
      (dot_product (take n a) (take n b), dot_product (take n a) (take n a),
       dot_product (take n b) (take n b))"
    by simp
  have "cosineLoop a b (Suc n) =
          (case cosineLoop a b n of
             (d, n1, n2) \<Rightarrow> (d + a ! n * b ! n, n1 + a ! n * a ! n, n2 + b ! n * b ! n))"
    by (simp add: cosineLoop_def split: prod.split)
  then show ?case using Suc.prems IH
    by (simp add: dot_product_def take_Suc_conv_app_nth)
qed

text \<open>
  C7. \<open>calculateCosineSimilarity\<close> raises exactly when the two lengths differ; on
  vectors of one length it returns 0 when a norm is zero and otherwise the dot product
  divided by the product of the norms.
\<close>

theorem cosine_raises_iff_dimension_mismatch:
  "((\<exists>e. calculateCosineSimilarity a b = Inl e) \<longleftrightarrow> length a \<noteq> length b)
   \<and> (length a \<noteq> length b \<longrightarrow>
        calculateCosineSimilarity a b = Inl (Error ''Embeddings must have the same dimension''))
   \<and> (length a = length b \<longrightarrow>
        calculateCosineSimilarity a b =
          Inr (if vector_norm a = 0 \<or> vector_norm b = 0 then 0
               else dot_product a b / (vector_norm a * vector_norm b)))"
proof (cases "length a = length b")
  case True
  then show ?thesis
    by (simp add: calculateCosineSimilarity_def cosineLoop_sums vector_norm_def Let_def)
next
  case False
  then show ?thesis by (simp add: calculateCosineSimilarity_def)
qed

theorem cosine_raises_iff_dimension_mismatch_witness:
  "calculateCosineSimilarity [1, 0] [0, 1, 0] =
     Inl (Error ''Embeddings must have the same dimension'')
   \<and> calculateCosineSimilarity [3, 4] [0, 0] = Inr 0
   \<and> calculateCosineSimilarity [3, 4] [4, 3] = Inr (24 / 25)"
proof -
  have n: "vector_norm [3, 4] = 5" "vector_norm [4, 3] = 5" "vector_norm [0, 0] = 0"
    "dot_product [3, 4] [4, 3] = 24"
    by (simp_all add: vector_norm_def dot_product_def)
  show ?thesis
    using cosine_raises_iff_dimension_mismatch [of "[1, 0]" "[0, 1, 0]"]
      cosine_raises_iff_dimension_mismatch [of "[3, 4]" "[0, 0]"]
      cosine_raises_iff_dimension_mismatch [of "[3, 4]" "[4, 3]"]
    by (simp add: n)
qed

section \<open>The fusion\<close>

lemma orNeutral_truthy: "truthy (orNeutral s)"
  by (cases s) (auto simp: orNeutral_def)

lemma orNeutral_not_zero: "orNeutral s \<noteq> Num 0"
  using orNeutral_truthy [of s] by auto


lemma combineScores_fields:
  "listing (combineScores t s d) = listing t"
  "semanticScore (combineScores t s d) = orUndefined s"
  "dealScore (combineScores t s d) = d"
  "finalScore (aiRankingFactors (combineScores t s d)) =
     round2 (js_add (js_add (js_mul (orNeutral s) (Num 0.35)) (js_mul (overallScore d) (Num 0.35)))
                    (js_mul (relevanceScore t) (Num 0.30)))"
  "semanticSimilarity (aiRankingFactors (combineScores t s d)) = round2 (orNeutral s)"
  "semanticReason (explanation (combineScores t s d)) =
     semanticReason (generateExplanation (orNeutral s) d t)"
  by (simp_all add: combineScores_def Let_def)

lemma enhancedItems_by_index:
  "map (\<lambda>index. combineScores
          (map (\<lambda>item. calculateRelevanceScore item preferences) items ! index)
          (at_index sem index)
          (map (\<lambda>item. scoreDeal (mlDealScoringService services) item None)
             (map runtime items) ! index))
     [0..<length items]
   = enhancedItems services items preferences sem"
  unfolding enhancedItems_def by (rule map_cong) simp_all

lemma rankItemsWithAI_enhancedItems:
  "rankItemsWithAI services items preferences userQuery =
     Array_sort (sortEngine services)
       (\<lambda>a b. js_sub (finalScore (aiRankingFactors b)) (finalScore (aiRankingFactors a)))
       (enhancedItems services items preferences
          (case userQuery of
             None \<Rightarrow> []
           | Some q \<Rightarrow>
               if q \<noteq> [] \<and> isAvailable (azureOpenAIService services)
               then calculateSemanticScores (azureOpenAIService services) items q
               else []))"
  using enhancedItems_by_index [of preferences items _ services]
  by (simp add: rankItemsWithAI_def Let_def getTraditionalRanking_def scoreBatchDeals_def
        del: map_map)

lemma listing_enhancedItems:
  "map listing (enhancedItems services items preferences semanticScores) = items"
  by (simp add: enhancedItems_def combineScores_fields o_def map_nth)


lemma relevance_finite:
  assumes "parsedValue (price item) = Num p" "feedbackPercentage (seller item) = Num r"
  shows "\<exists>c. relevanceScore (calculateRelevanceScore item preferences) = Num c"
proof -
  obtain ps where ps: "calculatePriceScore item (maxPrice preferences) = Num ps"
    using price_finite [OF assms(1)] by blast
  obtain cs where cs: "calculateConditionScore item (preferredCondition preferences) = Num cs"
    using condition_bounds by blast
  obtain ss where ss: "calculateSellerScore item (minimumSellerRating preferences) = Num ss"
    using seller_bounds [OF assms(2)] by blast
  obtain hs where hs: "calculateShippingScore item (freeShippingOnly preferences) = Num hs"
    using shipping_bounds by blast
  obtain ks where ks: "calculateKeywordScore item (prefKeywords preferences) = Num ks"
    using keyword_bounds by blast
  show ?thesis
    unfolding relevanceScore_calculateRelevanceScore ps cs ss hs ks
    by (simp only: js_mul.simps js_add.simps round2_Num) blast
qed

lemma shippingRatio_finite:
  assumes "p \<noteq> 0"
    and "case shippingOptions item of
           Some (first # rest) \<Rightarrow> \<exists>c. parsedValue (shippingCost first) = Num c
         | _ \<Rightarrow> True"
  shows "\<exists>x. calculateShippingRatio (runtime item) (Num p) = Inr (Num x)"
proof (cases "shippingOptions item")
  case None
  then have "calculateShippingRatio (runtime item) (Num p) = Inr (Num 0.5)"
    by (simp add: calculateShippingRatio_def runtime_def)
  then show ?thesis by (rule exI)
next
  case (Some opts)
  show ?thesis
  proof (cases opts)
    case Nil
    then have "calculateShippingRatio (runtime item) (Num p) = Inr (Num 0.5)"
      using Some by (simp add: calculateShippingRatio_def runtime_def)
    then show ?thesis by (rule exI)
  next
    case (Cons first rest)
    then obtain c where "parsedValue (shippingCost first) = Num c"
      using assms(2) Some by auto
    then have "calculateShippingRatio (runtime item) (Num p) =
        Inr (Num (if c = 0 then 0 else min 1 (c / p)))"
      using Some Cons assms(1)
      by (simp add: calculateShippingRatio_def runtime_def Let_def)
    then show ?thesis by (rule exI)
  qed
qed

lemma scoreDeal_overall_finite:
  assumes "parsedValue (price item) = Num p" "p \<noteq> 0"
    and "feedbackPercentage (seller item) = Num r"
    and "case shippingOptions item of
           Some (first # rest) \<Rightarrow> \<exists>c. parsedValue (shippingCost first) = Num c
         | _ \<Rightarrow> True"
    and "avgs ''general'' = Some (Num a)" "a \<noteq> 0"
  shows "\<exists>d. overallScore (scoreDeal avgs (runtime item) None) = Num d"
proof -
  obtain x where x: "calculateShippingRatio (runtime item) (Num p) = Inr (Num x)"
    using shippingRatio_finite [OF assms(2,4)] by blast
  obtain q where q: "deal_calculateConditionScore (condition item) = Num q"
    using deal_calculateConditionScore_Num by blast
  obtain t where t: "calculateTitleQuality (title item) = Num t"
    using calculateTitleQuality_Num by blast
  define f where "f = \<lparr> priceVsAverage = Num (tanh ((p / a - 1) * 2)),
      sellerRating = Num (r / 100), shippingCostRatio = Num x,
      DealFeatures.conditionScore = Num q, titleQualityScore = Num t,
      listingAgeScore = Num 0.8, bidCountScore = Num 0.6 \<rparr>"
  have e: "extractFeatures avgs (runtime item) None = Inr f"
    using assms(1,3,5,6) x q t
    by (simp add: extractFeatures_def runtime_def Let_def getMarketAverage_def
          normalizePriceRatio_def f_def)
  have "\<exists>y. calculateDealScore f = Num y"
    by (rule calculateDealScore_Num
          [of f "tanh ((p / a - 1) * 2)" "r / 100" x q t "0.8" "0.6"])
       (simp_all add: f_def)
  then obtain y where y: "calculateDealScore f = Num y" ..
  have "overallScore (scoreDeal avgs (runtime item) None) =
      Num (of_int \<lfloor>max 0 (min 100 (y * 100)) * 100 + 1 / 2\<rfloor> / 100)"
    by (simp add: scoreDeal_def scoreDeal_try_def e y Let_def)
  then show ?thesis by (rule exI)
qed

lemma finalScore_finite:
  assumes "relevanceScore t = Num c" "overallScore d = Num x"
    and "s = None \<or> (\<exists>v. s = Some (Num v))"
  shows "\<exists>f. finalScore (aiRankingFactors (combineScores t s d)) = Num f"
proof -
  have "\<exists>n. orNeutral s = Num n"
  proof (cases s)
    case None
    then show ?thesis by (simp add: orNeutral_def)
  next
    case (Some w)
    with assms(3) obtain v where "w = Num v" by auto
    then show ?thesis using Some by (cases "v = 0") (simp_all add: orNeutral_def)
  qed
  then obtain n where "orNeutral s = Num n" ..
  then show ?thesis
    unfolding combineScores_fields assms(1,2)
    by (simp only: js_mul.simps js_add.simps round2_Num) blast
qed




text \<open>
  A sufficient condition on the input for the final scores to be numbers: every listing
  has a price that is a number other than 0, a feedback percentage that is a number and,
  when it has shipping options, a first shipping cost that is a number, and the market
  average of the category \<open>general\<close> is a number other than 0.
\<close>

lemma similarityScore_finite:
  "similarityScore q emb = None \<or> (\<exists>v. similarityScore q emb = Some (Num v))"
proof (cases emb)
  case None
  then show ?thesis by (simp add: similarityScore_def)
next
  case (Some e)
  show ?thesis
  proof (cases "calculateCosineSimilarity q e")
    case (Inl err)
    then show ?thesis using Some by (simp add: similarityScore_def)
  next
    case (Inr similarity)
    then have "similarityScore q emb = Some (Num (max 0 (min 100 ((similarity + 1) * 50))))"
      using Some by (simp add: similarityScore_def)
    then show ?thesis by blast
  qed
qed

lemma at_index_finite:
  assumes "\<forall>s \<in> set sem. s = None \<or> (\<exists>v. s = Some (Num v))"
  shows "at_index sem i = None \<or> (\<exists>v. at_index sem i = Some (Num v))"
  using assms by (auto simp: at_index_def)

lemma semanticScores_finite:
  "\<forall>s \<in> set (calculateSemanticScores service items q). s = None \<or> (\<exists>v. s = Some (Num v))"
proof (cases "generateEmbedding service q 0")
  case None
  then show ?thesis by (simp add: calculateSemanticScores_def)
next
  case (Some queryEmbedding)
  then show ?thesis
    using similarityScore_finite [of queryEmbedding]
    by (auto simp: calculateSemanticScores_def Let_def)
qed

lemma rankItemsWithAI_finals_finite:
  assumes items: "\<forall>item \<in> set items.
        (\<exists>p. parsedValue (price item) = Num p \<and> p \<noteq> 0)
      \<and> (\<exists>r. feedbackPercentage (seller item) = Num r)
      \<and> (case shippingOptions item of
            Some (first # rest) \<Rightarrow> \<exists>c. parsedValue (shippingCost first) = Num c
          | _ \<Rightarrow> True)"
    and avg: "mlDealScoringService services ''general'' = Some (Num a)" "a \<noteq> 0"
    and e: "e \<in> set (rankItemsWithAI services items preferences userQuery)"
  shows "\<exists>f. finalScore (aiRankingFactors e) = Num f"
proof -
  define sem where "sem = (case userQuery of
       None \<Rightarrow> []
     | Some q \<Rightarrow>
         if q \<noteq> [] \<and> isAvailable (azureOpenAIService services)
         then calculateSemanticScores (azureOpenAIService services) items q
         else [])"
  have semf: "\<forall>s \<in> set sem. s = None \<or> (\<exists>v. s = Some (Num v))"
    using semanticScores_finite by (auto simp: sem_def split: option.split)
  from e have "e \<in> set (enhancedItems services items preferences sem)"
    by (simp only: rankItemsWithAI_enhancedItems set_Array_sort sem_def)
  then obtain i where i: "i < length items"
    and ei: "e = combineScores (calculateRelevanceScore (items ! i) preferences)
                   (at_index sem i)
                   (scoreDeal (mlDealScoringService services) (runtime (items ! i)) None)"
    by (auto simp: enhancedItems_def)
  from i items obtain p r where p: "parsedValue (price (items ! i)) = Num p" "p \<noteq> 0"
    and r: "feedbackPercentage (seller (items ! i)) = Num r"
    and s: "case shippingOptions (items ! i) of
              Some (first # rest) \<Rightarrow> \<exists>c. parsedValue (shippingCost first) = Num c
            | _ \<Rightarrow> True"
    using nth_mem by blast
  obtain c where c: "relevanceScore (calculateRelevanceScore (items ! i) preferences) = Num c"
    using relevance_finite [OF p(1) r] by blast
  obtain d where d: "overallScore
      (scoreDeal (mlDealScoringService services) (runtime (items ! i)) None) = Num d"
    using scoreDeal_overall_finite
      [of "items ! i" p r "mlDealScoringService services" a] p r s avg by blast
  show ?thesis
    unfolding ei using finalScore_finite [OF c d at_index_finite [OF semf]] .
qed

lemma rankItemsWithAI_sorted_for_numeric_listings:
  assumes "\<forall>item \<in> set items.
        (\<exists>p. parsedValue (price item) = Num p \<and> p \<noteq> 0)
      \<and> (\<exists>r. feedbackPercentage (seller item) = Num r)
      \<and> (case shippingOptions item of
            Some (first # rest) \<Rightarrow> \<exists>c. parsedValue (shippingCost first) = Num c
          | _ \<Rightarrow> True)"
    and "mlDealScoringService services ''general'' = Some (Num a)" "a \<noteq> 0"
  shows "sorted_wrt (\<lambda>a b. js_ge (finalScore (aiRankingFactors a)) (finalScore (aiRankingFactors b)))
           (rankItemsWithAI services items preferences userQuery)"
proof -
  have "\<forall>e \<in> set (rankItemsWithAI services items preferences userQuery).
          finalScore (aiRankingFactors e) \<noteq> NaN"
    using rankItemsWithAI_finals_finite [OF assms] by fastforce
  then show ?thesis
    unfolding rankItemsWithAI_enhancedItems set_Array_sort
    using sorted_Array_sort [of _ "\<lambda>e. finalScore (aiRankingFactors e)"] by blast
qed

lemma unpriced_deal_NaN:
  "overallScore (scoreDeal initializeMarketAverages (runtime unpricedItem) None) = NaN"
  by (simp add: scoreDeal_def scoreDeal_try_def extractFeatures_def runtime_def
        unpricedItem_def sampleItem_def Let_def calculateShippingRatio_def
        normalizePriceRatio_def calculateDealScore_def)




text \<open>
  The failure does not hang on the engine: a list of two or more elements with a NaN key
  is in no order sorted by \<^verbatim>\<open>>=\<close>, so on no engine do these three listings come back
  sorted.
\<close>

lemma not_sorted_with_NaN:
  assumes "e \<in> set xs" "k e = NaN" "2 \<le> length xs"
  shows "\<not> sorted_wrt (\<lambda>a b. js_ge (k a) (k b)) xs"
proof
  assume sorted: "sorted_wrt (\<lambda>a b. js_ge (k a) (k b)) xs"
  obtain i where i: "i < length xs" "xs ! i = e"
    using assms(1) by (auto simp: in_set_conv_nth)
  obtain j where j: "j < length xs" "j \<noteq> i"
    using assms(3) by (cases "i = 0") (auto intro: that [of 0] that [of 1])
  have "js_ge (k (xs ! i)) (k (xs ! j)) \<or> js_ge (k (xs ! j)) (k (xs ! i))"
    using sorted i j by (cases "i < j") (auto simp: sorted_wrt_iff_nth_less)
  then show False
    using i assms(2) by (auto simp: js_ge_def js_le_def)
qed

lemma rankItemsWithAI_unsorted_on_every_engine:
  "\<not> sorted_wrt (\<lambda>a b. js_ge (finalScore (aiRankingFactors a)) (finalScore (aiRankingFactors b)))
      (rankItemsWithAI (sampleServices\<lparr>sortEngine := engine\<rparr>)
         [sampleItem, unpricedItem, describedItem] keywordPreferences None)"
proof -
  define e1 where "e1 = combineScores (calculateRelevanceScore sampleItem keywordPreferences)
      None (scoreDeal initializeMarketAverages (runtime sampleItem) None)"
  define e2 where "e2 = combineScores (calculateRelevanceScore unpricedItem keywordPreferences)
      None (scoreDeal initializeMarketAverages (runtime unpricedItem) None)"
  define e3 where "e3 = combineScores (calculateRelevanceScore describedItem keywordPreferences)
      None (scoreDeal initializeMarketAverages (runtime describedItem) None)"
  define out where "out = rankItemsWithAI (sampleServices\<lparr>sortEngine := engine\<rparr>)
      [sampleItem, unpricedItem, describedItem] keywordPreferences None"
  have en: "enhancedItems (sampleServices\<lparr>sortEngine := engine\<rparr>)
      [sampleItem, unpricedItem, describedItem] keywordPreferences [] = [e1, e2, e3]"
    by (simp add: enhancedItems_def at_index_def sampleServices_def upt_rec e1_def e2_def e3_def)
  have "mset out = mset [e1, e2, e3]"
    unfolding out_def by (simp only: rankItemsWithAI_enhancedItems option.case en mset_Array_sort)
  then have "e2 \<in> set out" "2 \<le> length out"
    using mset_eq_setD [of out "[e1, e2, e3]"] mset_eq_length [of out "[e1, e2, e3]"] by auto
  moreover have "finalScore (aiRankingFactors e2) = NaN"
    by (simp add: e2_def combineScores_fields unpriced_deal_NaN)
  ultimately show ?thesis
    unfolding out_def [symmetric]
    using not_sorted_with_NaN [of e2 out "\<lambda>e. finalScore (aiRankingFactors e)"] by blast
qed

text \<open>
  C8. The fused path returns one item for every listing, whatever its composite; the
  preference-only path returns the ranked listings whose composite is greater than 0.
\<close>

theorem fused_keeps_every_listing:
  "length (rankItemsWithAI services items preferences userQuery) = length items
   \<and> mset (map listing (rankItemsWithAI services items preferences userQuery)) = mset items
   \<and> mset (rankItems items preferences) =
       mset (filter (\<lambda>ranked. js_gt (relevanceScore ranked) (Num 0))
               (map (\<lambda>item. calculateRelevanceScore item preferences) items))"
proof -
  have "mset (map listing (rankItemsWithAI services items preferences userQuery)) =
          image_mset listing (mset (enhancedItems services items preferences
            (case userQuery of
               None \<Rightarrow> []
             | Some q \<Rightarrow>
                 if q \<noteq> [] \<and> isAvailable (azureOpenAIService services)
                 then calculateSemanticScores (azureOpenAIService services) items q
                 else [])))"
    unfolding rankItemsWithAI_enhancedItems by (simp add: mset_Array_sort)
  also have "\<dots> = mset items"
    unfolding mset_map [symmetric] by (simp only: listing_enhancedItems)
  finally have m:
    "mset (map listing (rankItemsWithAI services items preferences userQuery)) = mset items" .
  have "length (rankItemsWithAI services items preferences userQuery) = length items"
    unfolding rankItemsWithAI_enhancedItems by (simp add: length_Array_sort enhancedItems_def)
  then show ?thesis using m by (simp add: rankItems_def mset_js_sort)
qed

lemma unpriced_priceScore: "calculatePriceScore unpricedItem (Some (Num 100)) = NaN"
  by (simp add: unpricedItem_def calculatePriceScore_def js_gt_def)

lemma unpriced_relevance:
  "relevanceScore (calculateRelevanceScore unpricedItem samplePreferences) = NaN"
  by (simp add: relevanceScore_calculateRelevanceScore samplePreferences_def unpriced_priceScore)

theorem fused_keeps_every_listing_witness:
  "length (rankItemsWithAI sampleServices [sampleItem, unpricedItem] samplePreferences None) = 2
   \<and> mset (map listing
        (rankItemsWithAI sampleServices [sampleItem, unpricedItem] samplePreferences None))
       = {#sampleItem, unpricedItem#}
   \<and> mset (rankItems [sampleItem, unpricedItem] samplePreferences)
       = {#calculateRelevanceScore sampleItem samplePreferences#}"
  using fused_keeps_every_listing
    [of sampleServices "[sampleItem, unpricedItem]" samplePreferences None]
  by (simp add: unpriced_relevance sample_relevance js_gt_def)

text \<open>
  C9. A computed semantic score of 0, which a cosine similarity of -1 gives, is replaced
  by the neutral 50 in the fusion: the item is fused as one without a semantic score, and
  no final score has a semantic term of 0.
\<close>

theorem zero_semantic_score_becomes_neutral:
  "combineScores t (Some (Num 0)) d = combineScores t None d
   \<and> semanticSimilarity (aiRankingFactors (combineScores t (Some (Num 0)) d)) = Num 50
   \<and> semanticScore (combineScores t (Some (Num 0)) d) = None
   \<and> finalScore (aiRankingFactors (combineScores t (Some (Num 0)) d)) =
       round2 (js_add (js_add (js_mul (Num 50) (Num 0.35)) (js_mul (overallScore d) (Num 0.35)))
                      (js_mul (relevanceScore t) (Num 0.30)))
   \<and> orNeutral s \<noteq> Num 0
   \<and> (calculateCosineSimilarity q e = Inr (- 1) \<longrightarrow> similarityScore q (Some e) = Some (Num 0))"
  by (simp add: combineScores_def Let_def orNeutral_def orUndefined_def similarityScore_def
        orNeutral_not_zero [unfolded orNeutral_def])

theorem zero_semantic_score_becomes_neutral_witness:
  "calculateCosineSimilarity [1, 0] [- 1, 0] = Inr (- 1)
   \<and> similarityScore [1, 0] (Some [- 1, 0]) = Some (Num 0)
   \<and> semanticSimilarity (aiRankingFactors
        (combineScores (calculateRelevanceScore sampleItem samplePreferences)
           (similarityScore [1, 0] (Some [- 1, 0]))
           (scoreDeal initializeMarketAverages (runtime sampleItem) None))) = Num 50"
proof -
  have c: "calculateCosineSimilarity [1, 0] [- 1, 0] = Inr (- 1)"
    by (simp add: calculateCosineSimilarity_def cosineLoop_def Let_def)
  note t = zero_semantic_score_becomes_neutral
      [of "calculateRelevanceScore sampleItem samplePreferences"
          "scoreDeal initializeMarketAverages (runtime sampleItem) None" None "[1, 0]" "[- 1, 0]"]
  from t c have s: "similarityScore [1, 0] (Some [- 1, 0]) = Some (Num 0)"
    by blast
  from t have "semanticSimilarity (aiRankingFactors
        (combineScores (calculateRelevanceScore sampleItem samplePreferences)
           (Some (Num 0))
           (scoreDeal initializeMarketAverages (runtime sampleItem) None))) = Num 50"
    by blast
  then show ?thesis using c s by simp
qed

section \<open>The explanation\<close>

lemma semanticReason_neutral:
  "semanticReason (generateExplanation (Num 50) d t) = Some ''Somewhat relevant to your search''"
  by (simp add: generateExplanation_def Let_def)

text \<open>The semantic reason is there on every fused item, with or without a query.\<close>

lemma semanticReason_never_omitted:
  "semanticReason (explanation (combineScores t s d)) \<noteq> None"
  using orNeutral_truthy [of s]
  by (simp add: combineScores_fields generateExplanation_def Let_def)

lemma semanticReason_without_query:
  assumes "e \<in> set (rankItemsWithAI services items preferences None)"
  shows "semanticReason (explanation e) = Some ''Somewhat relevant to your search''"
proof -
  from assms have "e \<in> set (enhancedItems services items preferences [])"
    by (simp add: rankItemsWithAI_enhancedItems set_Array_sort)
  then show ?thesis
    by (auto simp: enhancedItems_def combineScores_fields at_index_def orNeutral_def
          semanticReason_neutral)
qed

text \<open>The buckets of the semantic reason, for a score that is a number other than 0.\<close>

lemma semanticReason_buckets:
  assumes "x \<noteq> 0"
  shows "semanticReason (generateExplanation (Num x) d t) =
     Some (if 75 \<le> x then ''Highly relevant to your search intent''
           else if 60 \<le> x then ''Good match for your search intent''
           else if 40 \<le> x then ''Somewhat relevant to your search''
           else ''Limited relevance to your search intent'')"
  using assms by (simp add: generateExplanation_def Let_def)

text \<open>
  C3 at a request without a query: the explanation of the returned item carries the
  semantic reason of the neutral score 50, where the claim has it omitted.
\<close>

theorem semanticReason_reported_without_query:
  "map (\<lambda>e. semanticReason (explanation e))
     (rankItemsWithAI sampleServices [sampleItem] samplePreferences None)
   = [Some ''Somewhat relevant to your search'']"
  by (simp add: rankItemsWithAI_enhancedItems enhancedItems_def combineScores_fields
        at_index_def orNeutral_def semanticReason_neutral
        Array_sort_single [of _ "\<lambda>e. finalScore (aiRankingFactors e)"])

section \<open>The batch of embeddings\<close>

lemma preprocess_samples:
  "preprocessText '''' = ''''"
  "preprocessText ''phone'' = ''phone''"
  "trim ''phone'' = ''phone''"
  "trim [] = []"
  by (simp_all add: preprocessText_def trim_def isSpace_def Let_def)

text \<open>
  The result has the length of the input when the remote service returns no more
  embeddings than it was given texts.
\<close>

lemma batchLoop_length:
  assumes "\<And>i ts data. remote i (Many ts) = Responds (Some data) \<Longrightarrow> length data \<le> length ts"
  shows "length results = min i (length texts) \<Longrightarrow>
         length (batchLoop remote texts i results) = length texts"
proof (induction "length texts - i" arbitrary: i results rule: less_induct)
  case less
  show ?case
  proof (cases "i < length texts")
    case False
    then show ?thesis using less.prems by (subst batchLoop.simps) simp
  next
    case True
    define batch where "batch = take 16 (drop i texts)"
    define cleanBatch where
      "cleanBatch = filter (\<lambda>text'. trim text' \<noteq> []) (map preprocessText batch)"
    have lb: "i + length batch = min (i + 16) (length texts)"
      using True by (simp add: batch_def)
    have lc: "length cleanBatch \<le> length batch"
      by (simp add: cleanBatch_def)
    have lr: "length results = i"
      using less.prems True by simp
    have step: "length (batchLoop remote texts (i + 16) rs) = length texts"
      if "length rs = i + length batch" for rs
      using less.hyps [of "i + 16" rs] True that lb by simp
    have nulls: "length (results @ replicate (length batch) None) = i + length batch"
      using lr by simp
    have padded: "length ((results @ map Some data)
        @ replicate (i + length batch - length (results @ map Some data)) None)
        = i + length batch"
      if "remote i (Many cleanBatch) = Responds (Some data)" for data
      using assms [OF that] lc lr by simp
    have eq: "batchLoop remote texts i results =
      (if length cleanBatch = 0
       then batchLoop remote texts (i + 16) (results @ replicate (length batch) None)
       else (case remote i (Many cleanBatch) of
               Responds (Some data) \<Rightarrow>
                 batchLoop remote texts (i + 16)
                   ((results @ map Some data)
                    @ replicate (i + length batch - length (results @ map Some data)) None)
             | Responds None \<Rightarrow>
                 batchLoop remote texts (i + 16) (results @ replicate (length batch) None)
             | Throws batchError \<Rightarrow>
                 batchLoop remote texts (i + 16) (results @ replicate (length batch) None)))"
      using True
      by (subst batchLoop.simps) (simp only: Let_def batch_def cleanBatch_def if_True)
    show ?thesis
    proof (cases "length cleanBatch = 0")
      case True
      then show ?thesis
        unfolding eq using step [OF nulls] by simp
    next
      case False
      show ?thesis
      proof (cases "remote i (Many cleanBatch)")
        case (Throws batchError)
        then show ?thesis
          unfolding eq using False step [OF nulls] by simp
      next
        case (Responds reply)
        show ?thesis
        proof (cases reply)
          case None
          then show ?thesis
            unfolding eq using False Responds step [OF nulls] by simp
        next
          case (Some data)
          then show ?thesis
            unfolding eq using False Responds step [OF padded [of data]] by simp
        qed
      qed
    qed
  qed
qed

lemma generateBatchEmbeddings_length:
  assumes "\<And>remote i ts data.
     client service = Some remote \<Longrightarrow> remote i (Many ts) = Responds (Some data) \<Longrightarrow>
     length data \<le> length ts"
  shows "length (generateBatchEmbeddings service texts) = length texts"
proof (cases "client service")
  case None
  then show ?thesis by (simp add: generateBatchEmbeddings_def)
next
  case (Some remote)
  then show ?thesis
    using batchLoop_length [of remote "[]" 0 texts] assms [OF Some]
    by (simp add: generateBatchEmbeddings_def)
qed

text \<open>
  Every round appends to \<open>results\<close>: what earlier groups put there stays, whatever the
  later calls do.
\<close>

lemma batchLoop_appends:
  assumes "i < length texts"
  shows "\<exists>added. batchLoop remote texts i results =
           batchLoop remote texts (i + 16) (results @ added)"
proof -
  define batch where "batch = take 16 (drop i texts)"
  define cleanBatch where
    "cleanBatch = filter (\<lambda>text'. trim text' \<noteq> []) (map preprocessText batch)"
  have eq: "batchLoop remote texts i results =
    (if length cleanBatch = 0
     then batchLoop remote texts (i + 16) (results @ replicate (length batch) None)
     else (case remote i (Many cleanBatch) of
             Responds (Some data) \<Rightarrow>
               batchLoop remote texts (i + 16)
                 ((results @ map Some data)
                  @ replicate (i + length batch - length (results @ map Some data)) None)
           | Responds None \<Rightarrow>
               batchLoop remote texts (i + 16) (results @ replicate (length batch) None)
           | Throws batchError \<Rightarrow>
               batchLoop remote texts (i + 16) (results @ replicate (length batch) None)))"
    using assms
    by (subst batchLoop.simps) (simp only: Let_def batch_def cleanBatch_def if_True)
  show ?thesis
  proof (cases "length cleanBatch = 0")
    case True
    then show ?thesis unfolding eq by auto
  next
    case False
    show ?thesis
    proof (cases "remote i (Many cleanBatch)")
      case (Throws batchError)
      then show ?thesis unfolding eq using False by auto
    next
      case (Responds reply)
      show ?thesis
      proof (cases reply)
        case None
        then show ?thesis unfolding eq using False Responds by auto
      next
        case (Some data)
        have "batchLoop remote texts i results =
            batchLoop remote texts (i + 16)
              (results @ (map Some data
                 @ replicate (i + length batch - length (results @ map Some data)) None))"
          unfolding eq using False Responds Some by simp
        then show ?thesis by (rule exI)
      qed
    qed
  qed
qed

lemma batchLoop_keeps_results: "prefix results (batchLoop remote texts i results)"
proof (induction "length texts - i" arbitrary: i results rule: less_induct)
  case less
  show ?case
  proof (cases "i < length texts")
    case False
    then show ?thesis by (subst batchLoop.simps) simp
  next
    case True
    then obtain added where
      a: "batchLoop remote texts i results = batchLoop remote texts (i + 16) (results @ added)"
      using batchLoop_appends by blast
    have "prefix (results @ added) (batchLoop remote texts (i + 16) (results @ added))"
      using less [of "i + 16" "results @ added"] True by simp
    then show ?thesis
      unfolding a using append_prefixD by blast
  qed
qed

text \<open>
  C2 at the texts \<^verbatim>\<open>['', 'phone']\<close>, with a remote service that answers every call:
  the embedding of the second text is returned at index 0, whose text is empty, and index
  1 is reported unavailable.
\<close>

theorem batch_misplaces_embedding_after_empty_text:
  "generateBatchEmbeddings (azureOpenAIService sampleServices) ['''', ''phone'']
   = [Some [5, 1], None]"
  by (simp add: generateBatchEmbeddings_def sampleServices_def sampleRemote_def
        batchLoop.simps preprocess_samples)

end
